theory Spec2Isabelle
  imports Main
begin

section \<open>JavaScript strings and values\<close>

text \<open>
  A JavaScript string is the list of its UTF-16 code units. A code unit below 256 is
  written \<open>A c\<close> with the character \<open>c\<close> of that code, so that ASCII text reads as
  text; \<open>U n\<close> is the code unit \<open>256 + n\<close>, and \<open>W n\<close> writes the code unit
  \<open>n \<ge> 256\<close> by its own number.
\<close>

datatype cu = A char | U nat

type_synonym ustring = "cu list"

abbreviation u :: "string \<Rightarrow> ustring" where
  "u s \<equiv> map A s"

abbreviation W :: "nat \<Rightarrow> cu" where
  "W n \<equiv> U (n - 256)"

definition js_startsWith :: "ustring \<Rightarrow> ustring \<Rightarrow> bool" where
  "js_startsWith s p = (take (length p) s = p)"

fun js_includes :: "ustring \<Rightarrow> ustring \<Rightarrow> bool" where
  "js_includes [] t = (t = [])"
| "js_includes (c # cs) t = (js_startsWith (c # cs) t \<or> js_includes cs t)"

fun js_join :: "ustring list \<Rightarrow> ustring \<Rightarrow> ustring" where
  "js_join [] sep = []"
| "js_join [x] sep = x"
| "js_join (x # y # ys) sep = x @ sep @ js_join (y # ys) sep"

text \<open>\<open>s.split(sep)\<close> for a non-empty separator \<open>sep\<close>, scanning left to right.\<close>

function js_split_from :: "ustring \<Rightarrow> ustring \<Rightarrow> ustring \<Rightarrow> ustring list" where
  "js_split_from sep acc [] = [rev acc]"
| "js_split_from sep acc (c # cs) =
     (if sep \<noteq> [] \<and> js_startsWith (c # cs) sep
      then rev acc # js_split_from sep [] (drop (length sep) (c # cs))
      else js_split_from sep (c # acc) cs)"
  by pat_completeness auto
termination
  by (relation "measure (\<lambda>(sep, acc, s). length s)") auto

definition js_split :: "ustring \<Rightarrow> ustring \<Rightarrow> ustring list" where
  "js_split s sep = js_split_from sep [] s"

text \<open>\<open>s.replace(pat, rep)\<close> with a string pattern: the first occurrence only.\<close>

fun js_replace :: "ustring \<Rightarrow> ustring \<Rightarrow> ustring \<Rightarrow> ustring" where
  "js_replace [] pat rep = (if pat = [] then rep else [])"
| "js_replace (c # cs) pat rep =
     (if js_startsWith (c # cs) pat then rep @ drop (length pat) (c # cs)
      else c # js_replace cs pat rep)"

text \<open>A non-negative integer interpolated into a template literal.\<close>

function show_nat :: "nat \<Rightarrow> ustring" where
  "show_nat n =
     (if n < 10 then [A (''0123456789'' ! n)]
      else show_nat (n div 10) @ [A (''0123456789'' ! (n mod 10))])"
  by pat_completeness auto
termination
  by (relation "measure id") auto

declare show_nat.simps [simp del]

text \<open>
  \<open>String.prototype.toLowerCase\<close> follows the case mappings of Unicode and is not
  modelled: the functions that call it take it as the argument \<open>lc\<close>, and what is
  proved of them holds for every \<open>lc\<close>. \<open>ascii_lower\<close>, which lower-cases the letters
  A to Z and is \<open>toLowerCase\<close> on ASCII text, stands in for it in the examples.
\<close>

definition lower_char :: "char \<Rightarrow> char" where
  "lower_char c =
     (case map_of (zip ''ABCDEFGHIJKLMNOPQRSTUVWXYZ'' ''abcdefghijklmnopqrstuvwxyz'') c of
        Some d \<Rightarrow> d
      | None \<Rightarrow> c)"

fun lower_cu :: "cu \<Rightarrow> cu" where
  "lower_cu (A c) = A (lower_char c)"
| "lower_cu (U n) = U n"

definition ascii_lower :: "ustring \<Rightarrow> ustring" where
  "ascii_lower s = map lower_cu s"

text \<open>
  A thrown value is an \<open>Error\<close> with its message or something else;
  \<open>error instanceof Error ? error.message : 'Unknown error'\<close> reads it.
\<close>

datatype js_thrown = Error ustring | Thrown_other

fun error_message :: "js_thrown \<Rightarrow> ustring" where
  "error_message (Error m) = m"
| "error_message Thrown_other = u ''Unknown error''"

text \<open>
  A value read from a property of an object that \<open>JSON.parse\<close> produced: the property is
  absent (\<open>undefined\<close>), \<open>null\<close>, a string, or something else (a number, a boolean, an
  array, an object). Of a value that is something else the handler observes two things
  only, and \<open>Other\<close> carries both: whether it is truthy, and what converting it to a
  string gives (the conversion of an object throws when its \<open>toString\<close> and
  \<open>valueOf\<close> properties are not functions).
\<close>

datatype jsval = Undefined | Null | Str ustring | Other bool "js_thrown + ustring"

text \<open>\<open>!v\<close> is \<open>\<not> truthy v\<close>: \<open>undefined\<close>, \<open>null\<close> and \<open>''\<close> are falsy.\<close>

fun truthy :: "jsval \<Rightarrow> bool" where
  "truthy (Str s) = (s \<noteq> [])"
| "truthy Undefined = False"
| "truthy Null = False"
| "truthy (Other b r) = b"

text \<open>A value interpolated into a template literal.\<close>

fun js_string :: "jsval \<Rightarrow> js_thrown + ustring" where
  "js_string (Str s) = Inr s"
| "js_string Undefined = Inr (u ''undefined'')"
| "js_string Null = Inr (u ''null'')"
| "js_string (Other b r) = r"

text \<open>\<open>xs[i]\<close> on an array of strings: \<open>undefined\<close> out of range.\<close>

definition js_index :: "ustring list \<Rightarrow> nat \<Rightarrow> jsval" where
  "js_index xs i = (if i < length xs then Str (xs ! i) else Undefined)"

text \<open>
  \<open>analysis.name?.toLowerCase() || ''\<close>: the lower-cased string; the empty string for
  an absent or \<open>null\<close> field; and a TypeError for any other value, which has no method
  \<open>toLowerCase\<close>.
\<close>

fun lower_or_empty :: "(ustring \<Rightarrow> ustring) \<Rightarrow> ustring \<Rightarrow> jsval \<Rightarrow> js_thrown + ustring" where
  "lower_or_empty lc name (Str s) = Inr (lc s)"
| "lower_or_empty lc name Undefined = Inr []"
| "lower_or_empty lc name Null = Inr []"
| "lower_or_empty lc name (Other b r) =
     Inl (Error (u ''analysis.'' @ name @ u ''?.toLowerCase is not a function''))"

section \<open>Data model\<close>

text \<open>
  The interfaces of \<open>types/emailTypes\<close> and \<open>types/chatTypes\<close>. Field names that
  occur in several interfaces carry a prefix in all but \<open>EmailAnalysis\<close>.
\<close>

record EmailAttachment =
  filename :: ustring
  contentType :: ustring
  att_content :: ustring
  parsedContent :: "(ustring \<times> ustring option) list option"
  extractedText :: "ustring option"

record EmailAnalysis =
  requestType :: jsval
  priority :: jsval
  keyPoints :: "ustring list"
  actionItems :: "ustring list"
  accountNumber :: jsval
  customerId :: jsval
  subject :: jsval
  content :: jsval
  additionalFields :: "(ustring \<times> ustring) list"
  attachments :: "EmailAttachment list option"

section \<open>Field validation and ticket classification\<close>

text \<open>\<open>validateRequiredFields\<close>: four guarded pushes onto an initially empty array.\<close>

definition validateRequiredFields :: "EmailAnalysis \<Rightarrow> ustring list" where
  "validateRequiredFields analysis =
     (let missingFields = [];
          missingFields = (if \<not> truthy (requestType analysis)
                           then missingFields @ [u ''Request Type''] else missingFields);
          missingFields = (if \<not> truthy (priority analysis)
                           then missingFields @ [u ''Priority''] else missingFields);
          missingFields = (if \<not> truthy (accountNumber analysis) \<and> \<not> truthy (customerId analysis)
                           then missingFields @ [u ''Account Number/Customer ID'']
                           else missingFields);
          missingFields = (if \<not> truthy (subject analysis)
                           then missingFields @ [u ''Subject''] else missingFields)
      in missingFields)"




text \<open>
  \<open>classifyTicketType\<close>: the three fields are lower-cased in the order content, subject,
  request type (the first that is neither a string nor absent throws), then the chain of
  \<open>if\<close> / \<open>else if\<close> of the source decides.
\<close>

definition classify_chain :: "ustring \<Rightarrow> ustring \<Rightarrow> ustring \<Rightarrow> ustring" where
  "classify_chain content' subject' requestType' =
     (if requestType' = u ''bug report'' \<or> js_includes content' (u ''bug'')
         \<or> js_includes content' (u ''crash'') then u ''jira-bug''
      else if requestType' = u ''feature request'' \<or> js_includes content' (u ''feature'')
         \<or> js_includes subject' (u ''feature'') then u ''jira-feature''
      else if js_includes content' (u ''epic'') \<or> js_includes subject' (u ''epic'')
      then u ''jira-epic''
      else if js_includes content' (u ''story'') \<or> js_includes subject' (u ''story'')
      then u ''jira-story''
      else if js_includes content' (u ''task'') \<or> js_includes subject' (u ''task'')
      then u ''jira-task''
      else if requestType' = u ''support request''
         \<or> js_includes content' (u ''incident'')
         \<or> js_includes content' (u ''error'')
         \<or> js_includes content' (u ''broken'')
         \<or> js_includes content' (u ''trouble'')
         \<or> js_includes content' (u ''not working'')
         \<or> js_includes content' (u ''reset'') then u ''servicenow-incident''
      else u ''servicenow-request'')"

definition classifyTicketType :: "(ustring \<Rightarrow> ustring) \<Rightarrow> EmailAnalysis \<Rightarrow> js_thrown + ustring" where
  "classifyTicketType lc analysis =
     (case lower_or_empty lc (u ''content'') (content analysis) of
        Inl thrown \<Rightarrow> Inl thrown
      | Inr content' \<Rightarrow>
          (case lower_or_empty lc (u ''subject'') (subject analysis) of
             Inl thrown \<Rightarrow> Inl thrown
           | Inr subject' \<Rightarrow>
               (case lower_or_empty lc (u ''requestType'') (requestType analysis) of
                  Inl thrown \<Rightarrow> Inl thrown
                | Inr requestType' \<Rightarrow> Inr (classify_chain content' subject' requestType'))))"

text \<open>
  The rule chain as the specification words it: rules 1 to 6 as (condition, category)
  pairs over the lower-cased triple, the first rule whose condition holds decides, and
  rule 7 is the default. A field is textual when it is a string or absent or \<open>null\<close>;
  \<open>lowered\<close> is then its lower-cased text, empty when there is none.
\<close>

fun textual :: "jsval \<Rightarrow> bool" where
  "textual (Other b r) = False"
| "textual v = True"

fun lowered :: "(ustring \<Rightarrow> ustring) \<Rightarrow> jsval \<Rightarrow> ustring" where
  "lowered lc (Str s) = lc s"
| "lowered lc v = []"

definition rule_chain :: "ustring \<Rightarrow> ustring \<Rightarrow> ustring \<Rightarrow> (bool \<times> ustring) list" where
  "rule_chain rt sj ct =
     [(rt = u ''bug report'' \<or> list_ex (js_includes ct) [u ''bug'', u ''crash''], u ''jira-bug''),
      (rt = u ''feature request'' \<or> js_includes ct (u ''feature'')
         \<or> js_includes sj (u ''feature''), u ''jira-feature''),
      (js_includes ct (u ''epic'') \<or> js_includes sj (u ''epic''), u ''jira-epic''),
      (js_includes ct (u ''story'') \<or> js_includes sj (u ''story''), u ''jira-story''),
      (js_includes ct (u ''task'') \<or> js_includes sj (u ''task''), u ''jira-task''),
      (rt = u ''support request'' \<or> list_ex (js_includes ct)
           [u ''incident'', u ''error'', u ''broken'', u ''trouble'', u ''not working'',
            u ''reset''],
         u ''servicenow-incident'')]"

definition first_match :: "(bool \<times> ustring) list \<Rightarrow> ustring \<Rightarrow> ustring" where
  "first_match rules dflt = (case find fst rules of Some r \<Rightarrow> snd r | None \<Rightarrow> dflt)"

definition textual_fields :: "EmailAnalysis \<Rightarrow> bool" where
  "textual_fields a =
     (textual (requestType a) \<and> textual (subject a) \<and> textual (content a))"

definition ticket_types :: "ustring list" where
  "ticket_types =
     [u ''jira-bug'', u ''jira-feature'', u ''jira-epic'', u ''jira-story'', u ''jira-task'',
      u ''servicenow-incident'', u ''servicenow-request'']"

section \<open>More of the data model\<close>

text \<open>The characters of the progress messages outside ASCII.\<close>

abbreviation emoji_search :: ustring where
  "emoji_search \<equiv> [W 0xD83D, W 0xDD0D]"
abbreviation emoji_mail :: ustring where
  "emoji_mail \<equiv> [W 0xD83D, W 0xDCE7]"
abbreviation emoji_warning :: ustring where
  "emoji_warning \<equiv> [W 0x26A0, W 0xFE0F]"
abbreviation emoji_person :: ustring where
  "emoji_person \<equiv> [W 0xD83D, W 0xDC64]"
abbreviation emoji_check :: ustring where
  "emoji_check \<equiv> [W 0x2705]"
abbreviation emoji_cycle :: ustring where
  "emoji_cycle \<equiv> [W 0xD83D, W 0xDD04]"
abbreviation emoji_clipboard :: ustring where
  "emoji_clipboard \<equiv> [W 0xD83D, W 0xDCCB]"
abbreviation emoji_ticket :: ustring where
  "emoji_ticket \<equiv> [W 0xD83C, W 0xDFAB]"
abbreviation emoji_memo :: ustring where
  "emoji_memo \<equiv> [W 0xD83D, W 0xDCDD]"
abbreviation emoji_key :: ustring where
  "emoji_key \<equiv> [W 0xD83D, W 0xDD11]"
abbreviation emoji_chart :: ustring where
  "emoji_chart \<equiv> [W 0xD83D, W 0xDCCA]"
abbreviation emoji_cross :: ustring where
  "emoji_cross \<equiv> [W 0x274C]"
abbreviation emoji_folder :: ustring where
  "emoji_folder \<equiv> [W 0xD83D, W 0xDCC1]"
abbreviation box_horizontal :: ustring where
  "box_horizontal \<equiv> [W 0x2500]"

record Ticket =
  ticket_type :: jsval
  title :: jsval
  description :: jsval
  ticket_priority :: jsval
  ticket_accountNumber :: jsval
  ticket_customerId :: jsval
  ticket_attachments :: "EmailAttachment list option"

record HumanReviewItem =
  reason :: ustring
  emailContent :: ustring
  missingFields :: "ustring list"
  partialAnalysis :: "EmailAnalysis option"

section \<open>The chat command handler\<close>

text \<open>
  What the handler does to the world outside it, in order: the commands it executes, the
  files it reads and the notifications it shows. (Writing to the log is left out, and is
  taken not to fail.)
\<close>

datatype event =
    ChatOpen ustring
  | JiraCreateIssue Ticket
  | ServiceNowCreateTicket Ticket
  | FindFiles
  | ReadFile ustring
  | ShowInformationMessage ustring

text \<open>
  What a ticket command returns: \<open>undefined\<close>, \<open>null\<close>, or a value of which only the
  property read by the handler (\<open>key\<close>, \<open>number\<close>) is kept.
\<close>

datatype response = No_response | Null_response | Response jsval

text \<open>
  The world outside the handler. Each external call answers from what has happened so
  far and its argument: it throws (\<open>Inl\<close>) or returns. The chat command returns a
  string or nothing (\<open>undefined\<close>/\<open>null\<close>). \<open>JSON.parse\<close> throws a SyntaxError or
  returns a value, which is falsy (\<open>None\<close>) or is read as an analysis record (a
  property that the value does not have reads as \<open>undefined\<close>).
\<close>

record env =
  chat_open :: "event list \<Rightarrow> ustring \<Rightarrow> js_thrown + ustring option"
  JSON_parse :: "ustring \<Rightarrow> js_thrown + EmailAnalysis option"
  toLowerCase :: "ustring \<Rightarrow> ustring"
  jira_createIssue :: "event list \<Rightarrow> Ticket \<Rightarrow> js_thrown + response"
  servicenow_createTicket :: "event list \<Rightarrow> Ticket \<Rightarrow> js_thrown + response"
  findFiles :: "event list \<Rightarrow> js_thrown + ustring list"
  fs_readFile :: "event list \<Rightarrow> ustring \<Rightarrow> js_thrown + ustring"
  activeTextEditor :: "ustring option"

text \<open>
  Objects live in a store and are held by reference. \<open>items\<close> maps the address of a
  review item to the item, \<open>arrays\<close> the address of an array of review items to the
  references it holds; the binding that comes first in a list is the current one. The
  private field \<open>humanReviewQueue\<close> holds the address of the queue's array.
\<close>

record state =
  arrays :: "(nat \<times> nat list) list"
  items :: "(nat \<times> HumanReviewItem) list"
  humanReviewQueue :: nat
  trace :: "event list"

definition array_at :: "state \<Rightarrow> nat \<Rightarrow> nat list" where
  "array_at st a = (case map_of (arrays st) a of None \<Rightarrow> [] | Some refs \<Rightarrow> refs)"

definition item_at :: "state \<Rightarrow> nat \<Rightarrow> HumanReviewItem" where
  "item_at st r =
     (case map_of (items st) r of
        None \<Rightarrow> \<lparr>reason = [], emailContent = [], missingFields = [], partialAnalysis = None\<rparr>
      | Some item \<Rightarrow> item)"

text \<open>The queue as the sequence of the items its array refers to.\<close>

definition queue_items :: "state \<Rightarrow> HumanReviewItem list" where
  "queue_items st = map (item_at st) (array_at st (humanReviewQueue st))"

text \<open>An address that nothing in the store uses.\<close>

definition used :: "state \<Rightarrow> nat list" where
  "used st =
     humanReviewQueue st # map fst (arrays st) @ concat (map snd (arrays st))
       @ map fst (items st)"

definition fresh :: "state \<Rightarrow> nat" where
  "fresh st = Suc (fold max (used st) 0)"

text \<open>\<open>new ChatCommandHandler()\<close>: the field initialiser allocates an empty array.\<close>

definition new_ChatCommandHandler :: state where
  "new_ChatCommandHandler =
     \<lparr>arrays = [(0, [])], items = [], humanReviewQueue = 0, trace = []\<rparr>"

definition emit :: "event \<Rightarrow> state \<Rightarrow> state" where
  "emit e st = st\<lparr>trace := trace st @ [e]\<rparr>"

text \<open>An object literal \<open>{reason: ..., ...}\<close>: a new item in the store.\<close>

definition new_item :: "HumanReviewItem \<Rightarrow> state \<Rightarrow> nat \<times> state" where
  "new_item item st = (fresh st, st\<lparr>items := (fresh st, item) # items st\<rparr>)"

text \<open>\<open>addToHumanReviewQueue\<close> pushes the reference it is given.\<close>

definition addToHumanReviewQueue :: "nat \<Rightarrow> state \<Rightarrow> state" where
  "addToHumanReviewQueue item st =
     emit (ShowInformationMessage
             (u ''Email queued for human review: '' @ reason (item_at st item)))
       (st\<lparr>arrays := (humanReviewQueue st, array_at st (humanReviewQueue st) @ [item])
                       # arrays st\<rparr>)"

text \<open>
  \<open>this.addToHumanReviewQueue({reason: ..., ...})\<close>: the object literal makes a new
  item, and its reference is what the method is given.
\<close>

definition queue_for_review :: "HumanReviewItem \<Rightarrow> state \<Rightarrow> state" where
  "queue_for_review item st =
     (case new_item item st of (r, st') \<Rightarrow> addToHumanReviewQueue r st')"

text \<open>\<open>[...this.humanReviewQueue]\<close>: a new array holding the same references.\<close>

definition getHumanReviewQueue :: "state \<Rightarrow> nat \<times> state" where
  "getHumanReviewQueue st =
     (fresh st, st\<lparr>arrays := (fresh st, array_at st (humanReviewQueue st)) # arrays st\<rparr>)"

text \<open>
  What a caller can do with a reference: change the array it refers to (\<open>push\<close>,
  \<open>pop\<close>, \<open>splice\<close>, an assignment to an index or to \<open>length\<close>), or change the item
  it refers to (an assignment to a property).
\<close>

definition mutate_array :: "nat \<Rightarrow> (nat list \<Rightarrow> nat list) \<Rightarrow> state \<Rightarrow> state" where
  "mutate_array r f st = st\<lparr>arrays := (r, f (array_at st r)) # arrays st\<rparr>"

definition mutate_item :: "nat \<Rightarrow> (HumanReviewItem \<Rightarrow> HumanReviewItem) \<Rightarrow> state \<Rightarrow> state" where
  "mutate_item r g st = st\<lparr>items := (r, g (item_at st r)) # items st\<rparr>"

definition createJiraTicket :: "EmailAnalysis \<Rightarrow> jsval \<Rightarrow> Ticket" where
  "createJiraTicket analysis type =
     \<lparr>ticket_type = type,
      title = (if truthy (subject analysis) then subject analysis else Str (u ''No Subject'')),
      description = content analysis,
      ticket_priority = priority analysis,
      ticket_accountNumber = accountNumber analysis,
      ticket_customerId = customerId analysis,
      ticket_attachments = attachments analysis\<rparr>"

definition createServiceNowTicket :: "EmailAnalysis \<Rightarrow> jsval \<Rightarrow> Ticket" where
  "createServiceNowTicket analysis type =
     \<lparr>ticket_type = type,
      title = (if truthy (subject analysis) then subject analysis else Str (u ''No Subject'')),
      description = content analysis,
      ticket_priority = priority analysis,
      ticket_accountNumber = accountNumber analysis,
      ticket_customerId = customerId analysis,
      ticket_attachments = attachments analysis\<rparr>"

text \<open>Reading a property of \<open>undefined\<close> or of \<open>null\<close> throws a TypeError.\<close>

definition read_property :: "ustring \<Rightarrow> response \<Rightarrow> js_thrown + jsval" where
  "read_property name resp =
     (case resp of
        No_response \<Rightarrow>
          Inl (Error (u ''Cannot read properties of undefined (reading '' @ [A (CHR 0x27)]
                 @ name @ [A (CHR 0x27)] @ u '')''))
      | Null_response \<Rightarrow>
          Inl (Error (u ''Cannot read properties of null (reading '' @ [A (CHR 0x27)]
                 @ name @ [A (CHR 0x27)] @ u '')''))
      | Response v \<Rightarrow> Inr v)"

text \<open>
  \<open>submitJiraTicket\<close> and \<open>submitServiceNowTicket\<close>: the inner \<open>case\<close> is the body of
  the \<open>try\<close>, the outer one the \<open>catch\<close>.
\<close>

definition submitJiraTicket :: "env \<Rightarrow> Ticket \<Rightarrow> state \<Rightarrow> (js_thrown + ustring) \<times> state" where
  "submitJiraTicket ev ticket st =
     (case (case jira_createIssue ev (trace st) ticket of
              Inl thrown \<Rightarrow> Inl thrown
            | Inr resp \<Rightarrow>
                (case read_property (u ''key'') resp of
                   Inl thrown \<Rightarrow> Inl thrown
                 | Inr key \<Rightarrow>
                     (case js_string key of
                        Inl thrown \<Rightarrow> Inl thrown
                      | Inr text \<Rightarrow> Inr (u ''Jira ticket created: '' @ text)))) of
        Inl error \<Rightarrow>
          (Inl (Error (u ''Failed to create Jira ticket: '' @ error_message error)),
           emit (JiraCreateIssue ticket) st)
      | Inr r \<Rightarrow> (Inr r, emit (JiraCreateIssue ticket) st))"

definition submitServiceNowTicket ::
  "env \<Rightarrow> Ticket \<Rightarrow> state \<Rightarrow> (js_thrown + ustring) \<times> state" where
  "submitServiceNowTicket ev ticket st =
     (case (case servicenow_createTicket ev (trace st) ticket of
              Inl thrown \<Rightarrow> Inl thrown
            | Inr resp \<Rightarrow>
                (case read_property (u ''number'') resp of
                   Inl thrown \<Rightarrow> Inl thrown
                 | Inr number \<Rightarrow>
                     (case js_string number of
                        Inl thrown \<Rightarrow> Inl thrown
                      | Inr text \<Rightarrow> Inr (u ''ServiceNow incident created: '' @ text)))) of
        Inl error \<Rightarrow>
          (Inl (Error (u ''Failed to create ServiceNow ticket: '' @ error_message error)),
           emit (ServiceNowCreateTicket ticket) st)
      | Inr r \<Rightarrow> (Inr r, emit (ServiceNowCreateTicket ticket) st))"

text \<open>\<open>appendProgress\<close> pushes onto \<open>progressMessages\<close>, here passed along.\<close>

definition appendProgress :: "ustring list \<Rightarrow> ustring \<Rightarrow> ustring list" where
  "appendProgress progressMessages message = progressMessages @ [message]"

text \<open>
  The template literals into which fields of the analysis are interpolated; the
  conversion of a field to a string comes first where it can throw.
\<close>

definition extracted_message :: "EmailAnalysis \<Rightarrow> js_thrown + ustring" where
  "extracted_message analysis =
     (case js_string (subject analysis) of
        Inl thrown \<Rightarrow> Inl thrown
      | Inr subject' \<Rightarrow>
          (case js_string (priority analysis) of
             Inl thrown \<Rightarrow> Inl thrown
           | Inr priority' \<Rightarrow>
               (case js_string (requestType analysis) of
                  Inl thrown \<Rightarrow> Inl thrown
                | Inr requestType' \<Rightarrow>
                    Inr (emoji_check @ u '' Email data extracted successfully:''
                         @ u ''\<newline>- Subject: '' @ subject'
                         @ u ''\<newline>- Priority: '' @ priority'
                         @ u ''\<newline>- Type: '' @ requestType'))))"

text \<open>\<open>${xs[i]}\<close> for an array of strings.\<close>

definition show_index :: "ustring list \<Rightarrow> nat \<Rightarrow> ustring" where
  "show_index xs i = (if i < length xs then xs ! i else u ''undefined'')"

definition ticket_details :: "ustring \<Rightarrow> ustring \<Rightarrow> EmailAnalysis \<Rightarrow> ustring \<Rightarrow> js_thrown + ustring" where
  "ticket_details system ticketType analysis result =
     (case js_string (subject analysis) of
        Inl thrown \<Rightarrow> Inl thrown
      | Inr subject' \<Rightarrow>
          (case js_string (priority analysis) of
             Inl thrown \<Rightarrow> Inl thrown
           | Inr priority' \<Rightarrow>
               Inr (u ''\<newline>Ticket Details:\<newline>'' @ emoji_ticket @ u '' Type: '' @ system @ u '' ''
                    @ show_index (js_split ticketType (u ''-'')) 1
                    @ u ''\<newline>'' @ emoji_memo @ u '' Subject: '' @ subject'
                    @ u ''\<newline>'' @ emoji_key @ u '' ID: ''
                    @ show_index (js_split result (u '': '')) 1
                    @ u ''\<newline>'' @ emoji_chart @ u '' Priority: '' @ priority')))"

text \<open>
  The second half of \<open>handleSingleEmailAnalysis\<close>. \<open>jira_try\<close> and
  \<open>servicenow_try\<close> are the two branches inside the \<open>try\<close>: each gives what was
  thrown, if anything, the progress messages and the state. \<open>create_and_submit\<close> is the
  \<open>try\<close> with its \<open>catch\<close>, and the statements after it.
\<close>

definition jira_try ::
  "env \<Rightarrow> EmailAnalysis \<Rightarrow> ustring \<Rightarrow> ustring list \<Rightarrow> state
   \<Rightarrow> js_thrown option \<times> ustring list \<times> state" where
  "jira_try ev analysis ticketType pm st =
     (let pm = appendProgress pm
                 (emoji_clipboard @ u '' Creating Jira ''
                  @ show_index (js_split ticketType (u ''-'')) 1 @ u '' ticket...'');
          jiraTicket = createJiraTicket analysis (js_index (js_split ticketType (u ''-'')) 1)
      in case submitJiraTicket ev jiraTicket st of
           (Inl error, st') \<Rightarrow> (Some error, pm, st')
         | (Inr result, st') \<Rightarrow>
             (let pm = appendProgress pm (emoji_check @ u '' Jira ticket created successfully!'')
              in case ticket_details (u ''Jira'') ticketType analysis result of
                   Inl error \<Rightarrow> (Some error, pm, st')
                 | Inr details \<Rightarrow> (None, appendProgress pm details, st')))"

definition servicenow_try ::
  "env \<Rightarrow> EmailAnalysis \<Rightarrow> ustring \<Rightarrow> ustring list \<Rightarrow> state
   \<Rightarrow> js_thrown option \<times> ustring list \<times> state" where
  "servicenow_try ev analysis ticketType pm st =
     (let pm = appendProgress pm
                 (emoji_clipboard @ u '' Creating ServiceNow ''
                  @ show_index (js_split ticketType (u ''-'')) 1 @ u ''...'');
          snowTicket = createServiceNowTicket analysis
                         (js_index (js_split ticketType (u ''-'')) 1)
      in case submitServiceNowTicket ev snowTicket st of
           (Inl error, st') \<Rightarrow> (Some error, pm, st')
         | (Inr r, st') \<Rightarrow>
             (let result = (if ticketType = u ''servicenow-incident'' then r
                            else js_replace r (u ''incident'') (u ''ticket''));
                  pm = appendProgress pm
                         (emoji_check @ u '' ServiceNow ticket created successfully!'')
              in case ticket_details (u ''ServiceNow'') ticketType analysis result of
                   Inl error \<Rightarrow> (Some error, pm, st')
                 | Inr details \<Rightarrow> (None, appendProgress pm details, st')))"

definition create_and_submit ::
  "env \<Rightarrow> EmailAnalysis \<Rightarrow> ustring \<Rightarrow> ustring list \<Rightarrow> state \<Rightarrow> (js_thrown + ustring) \<times> state" where
  "create_and_submit ev analysis ticketType pm st =
     (if js_startsWith ticketType (u ''jira-'') \<or> js_startsWith ticketType (u ''servicenow-'')
      then
        (case (if js_startsWith ticketType (u ''jira-'')
               then jira_try ev analysis ticketType pm st
               else servicenow_try ev analysis ticketType pm st) of
           (None, pm, st') \<Rightarrow> (Inr (js_join pm (u ''\<newline>'')), st')
         | (Some error, pm, st') \<Rightarrow>
             (Inr (js_join
                     (appendProgress pm
                        (emoji_cross @ u '' Error creating ticket: '' @ error_message error))
                     (u ''\<newline>'')),
              st'))
      else
        (Inr (js_join
                (appendProgress pm
                   (emoji_warning @ u '' Email analysis complete, but no ticket was created''))
                (u ''\<newline>'')),
         st))"

text \<open>
  \<open>handleSingleEmailAnalysis\<close>. The result is the returned progress log, or the value
  thrown (the promise rejects); the state is the one left behind in either case.
  \<open>queue_unanalyzable\<close> is the body of its first \<open>if\<close>, taken when
  \<open>!analysis || chatResult === '{}'\<close>.
\<close>

definition queue_unanalyzable ::
  "ustring \<Rightarrow> ustring list \<Rightarrow> state \<Rightarrow> (js_thrown + ustring) \<times> state" where
  "queue_unanalyzable emailContent' pm st =
     (let pm = appendProgress pm
                 (emoji_warning @ u '' Analysis failed - Unable to extract email data'');
          st = queue_for_review
                 \<lparr>reason = u ''Unable to analyze email'', emailContent = emailContent',
                  missingFields = [u ''Analysis Failed''], partialAnalysis = None\<rparr> st;
          pm = appendProgress pm (emoji_person @ u '' Email has been queued for human review'')
      in (Inr (js_join pm (u ''\<newline>'')), st))"

definition handleSingleEmailAnalysis ::
  "env \<Rightarrow> ustring \<Rightarrow> state \<Rightarrow> (js_thrown + ustring) \<times> state" where
  "handleSingleEmailAnalysis ev emailContent' st0 =
     (let pm = appendProgress [] (emoji_search @ u '' Starting email analysis...'');
          pm = appendProgress pm (emoji_mail @ u '' Extracting email data and context...'');
          st = emit (ChatOpen emailContent') st0
      in case chat_open ev (trace st0) emailContent' of
           Inl thrown \<Rightarrow> (Inl thrown, st)
         | Inr chatResult \<Rightarrow>
             (case (case chatResult of
                      None \<Rightarrow> Inr None
                    | Some text \<Rightarrow>
                        if text \<noteq> [] \<and> text \<noteq> u ''{}'' then JSON_parse ev text
                        else Inr None) of
                Inl thrown \<Rightarrow> (Inl thrown, st)
              | Inr None \<Rightarrow> queue_unanalyzable emailContent' pm st
              | Inr (Some analysis) \<Rightarrow>
                  if chatResult = Some (u ''{}'') then queue_unanalyzable emailContent' pm st
                  else
                    (case extracted_message analysis of
                       Inl thrown \<Rightarrow> (Inl thrown, st)
                     | Inr extracted \<Rightarrow>
                         (let pm = appendProgress pm extracted;
                              pm = appendProgress pm
                                     (emoji_search @ u '' Validating required fields...'');
                              missingFields' = validateRequiredFields analysis
                          in if length missingFields' > 0 then
                               (let pm = appendProgress pm
                                           (emoji_warning @ u '' Missing required fields: ''
                                            @ js_join missingFields' (u '', ''));
                                    st = queue_for_review
                                           \<lparr>reason = u ''Missing required fields'',
                                            emailContent = emailContent',
                                            missingFields = missingFields',
                                            partialAnalysis = Some analysis\<rparr> st;
                                    pm = appendProgress pm
                                           (emoji_person
                                            @ u '' Email has been queued for human review'')
                                in (Inr (js_join pm (u ''\<newline>'')), st))
                             else
                               (let pm = appendProgress pm
                                           (emoji_check @ u '' All required fields validated'');
                                    pm = appendProgress pm
                                           (emoji_cycle @ u '' Classifying request type...'')
                                in case classifyTicketType (toLowerCase ev) analysis of
                                     Inl thrown \<Rightarrow> (Inl thrown, st)
                                   | Inr ticketType \<Rightarrow>
                                       create_and_submit ev analysis ticketType pm st)))))"

text \<open>
  \<open>handleBulkAnalysis\<close>. The loop over \<open>files\<close> (their \<open>fsPath\<close>s), with the index
  \<open>i\<close>, the progress messages and the \<open>results\<close> array; the two \<open>Inl\<close> branches
  are the \<open>catch\<close>.
\<close>

definition rule_line :: ustring where
  "rule_line = concat (replicate 40 box_horizontal)"

fun bulk_loop ::
  "env \<Rightarrow> nat \<Rightarrow> nat \<Rightarrow> ustring list \<Rightarrow> ustring list \<Rightarrow> (ustring \<times> ustring) list \<Rightarrow> state
   \<Rightarrow> ustring list \<times> (ustring \<times> ustring) list \<times> state" where
  "bulk_loop ev n i [] pm results st = (pm, results, st)"
| "bulk_loop ev n i (file # files) pm results st =
     (let pm = appendProgress pm
                 (u ''\<newline>'' @ emoji_mail @ u '' Processing email '' @ show_nat (i + 1) @ u '' of ''
                  @ show_nat n @ u ''...'');
          pm = appendProgress pm (emoji_folder @ u '' File: '' @ file)
      in case fs_readFile ev (trace st) file of
           Inl error \<Rightarrow>
             bulk_loop ev n (i + 1) files
               (appendProgress pm
                  (emoji_cross @ u '' Error processing email: '' @ error_message error
                   @ u ''\<newline>'' @ rule_line))
               results (emit (ReadFile file) st)
         | Inr content' \<Rightarrow>
             (case handleSingleEmailAnalysis ev content' (emit (ReadFile file) st) of
                (Inl error, st') \<Rightarrow>
                  bulk_loop ev n (i + 1) files
                    (appendProgress pm
                       (emoji_cross @ u '' Error processing email: '' @ error_message error
                        @ u ''\<newline>'' @ rule_line))
                    results st'
              | (Inr result, st') \<Rightarrow>
                  bulk_loop ev n (i + 1) files
                    (appendProgress pm
                       (emoji_check @ u '' Email processed successfully\<newline>'' @ rule_line))
                    (results @ [(file, result)]) st'))"

definition tickets_created :: "(ustring \<times> ustring) list \<Rightarrow> nat" where
  "tickets_created results =
     length (filter (\<lambda>r. js_includes (snd r) (u ''created successfully'')) results)"

definition failed_or_queued :: "(ustring \<times> ustring) list \<Rightarrow> nat" where
  "failed_or_queued results =
     length (filter (\<lambda>r. \<not> js_includes (snd r) (u ''created successfully'')) results)"

definition bulk_summary :: "nat \<Rightarrow> (ustring \<times> ustring) list \<Rightarrow> ustring" where
  "bulk_summary n results =
     u ''\<newline>'' @ emoji_chart @ u '' Summary:\<newline>''
     @ emoji_check @ u '' Total emails processed: '' @ show_nat n @ u ''\<newline>''
     @ emoji_ticket @ u '' Tickets created: '' @ show_nat (tickets_created results) @ u ''\<newline>''
     @ emoji_warning @ u '' Failed/Queued for review: '' @ show_nat (failed_or_queued results)"

definition handleBulkAnalysis :: "env \<Rightarrow> ustring list \<Rightarrow> state \<Rightarrow> ustring \<times> state" where
  "handleBulkAnalysis ev files st =
     (let pm = appendProgress []
                 (emoji_cycle @ u '' Starting bulk analysis of '' @ show_nat (length files)
                  @ u '' emails...\<newline>'')
      in case bulk_loop ev (length files) 0 files pm [] st of
           (pm, results, st') \<Rightarrow>
             (js_join (appendProgress pm (bulk_summary (length files) results)) (u ''\<newline>''),
              st'))"

text \<open>
  \<open>handleChatCommand\<close>: the command of the request, the text of the active editor (if
  any) and the files found decide between the single and the bulk run; whatever is thrown
  inside the \<open>try\<close> becomes an \<open>Error: ...\<close> string.
\<close>

definition handleChatCommand :: "env \<Rightarrow> ustring \<Rightarrow> state \<Rightarrow> ustring \<times> state" where
  "handleChatCommand ev command st =
     (if command \<noteq> u ''/start''
      then (u ''Unknown command. Available commands: /start'', st)
      else case activeTextEditor ev of
             None \<Rightarrow> (u ''Please open an email file first.'', st)
           | Some text \<Rightarrow>
               (case findFiles ev (trace st) of
                  Inl error \<Rightarrow> (u ''Error: '' @ error_message error, emit FindFiles st)
                | Inr selectedFiles \<Rightarrow>
                    if length selectedFiles > 1
                    then handleBulkAnalysis ev selectedFiles (emit FindFiles st)
                    else (case handleSingleEmailAnalysis ev text (emit FindFiles st) of
                            (Inl error, st') \<Rightarrow> (u ''Error: '' @ error_message error, st')
                          | (Inr result, st') \<Rightarrow> (result, st'))))"

section \<open>Stubbed surroundings\<close>

text \<open>
  Surroundings in the manner of the stubs of the test suite: fixed answers of the chat
  command, of \<open>JSON.parse\<close> and of the two ticket commands, and a table of files.
\<close>

definition stub_env ::
  "(js_thrown + ustring option) \<Rightarrow> (ustring \<Rightarrow> js_thrown + EmailAnalysis option)
   \<Rightarrow> (js_thrown + response) \<Rightarrow> (js_thrown + response) \<Rightarrow> (ustring \<times> ustring) list
   \<Rightarrow> ustring option \<Rightarrow> env" where
  "stub_env chat parse jira snow files editor =
     \<lparr>chat_open = (\<lambda>_ _. chat),
      JSON_parse = parse,
      toLowerCase = ascii_lower,
      jira_createIssue = (\<lambda>_ _. jira),
      servicenow_createTicket = (\<lambda>_ _. snow),
      findFiles = (\<lambda>_. Inr (map fst files)),
      fs_readFile = (\<lambda>_ path. case map_of files path of
                       None \<Rightarrow> Inl (Error (u ''ENOENT: no such file or directory, open '' @ path))
                     | Some text \<Rightarrow> Inr text),
      activeTextEditor = editor\<rparr>"

definition bug_analysis :: EmailAnalysis where
  "bug_analysis =
     \<lparr>requestType = Str (u ''Bug Report''), priority = Str (u ''high''),
      keyPoints = [u ''Application crash''], actionItems = [u ''Investigate crash''],
      accountNumber = Str (u ''ACC123456''), customerId = Undefined,
      subject = Str (u ''Bug Report: Crash''), content = Str (u ''App crashes on launch.''),
      additionalFields = [], attachments = None\<rparr>"

definition bug_email :: ustring where
  "bug_email = u ''Subject: Bug Report: Crash\<newline>From: a@b.com\<newline>\<newline>Account Number: ACC123456\<newline>App crashes on launch.''"

definition bug_json :: ustring where
  "bug_json = u ''{\"requestType\":\"Bug Report\",\"priority\":\"high\",\"keyPoints\":[\"Application crash\"],\"actionItems\":[\"Investigate crash\"],\"accountNumber\":\"ACC123456\",\"subject\":\"Bug Report: Crash\",\"content\":\"App crashes on launch.\"}''"

text \<open>
  The same report with the number 12345 as its content: \<open>numeric_analysis\<close> is what
  \<open>JSON.parse\<close> makes of \<open>numeric_json\<close>.
\<close>

definition numeric_json :: ustring where
  "numeric_json = u ''{\"requestType\":\"Bug Report\",\"priority\":\"high\",\"keyPoints\":[],\"actionItems\":[],\"accountNumber\":\"ACC123456\",\"subject\":\"Bug Report: Crash\",\"content\":12345}''"

definition numeric_analysis :: EmailAnalysis where
  "numeric_analysis =
     \<lparr>requestType = Str (u ''Bug Report''), priority = Str (u ''high''),
      keyPoints = [], actionItems = [],
      accountNumber = Str (u ''ACC123456''), customerId = Undefined,
      subject = Str (u ''Bug Report: Crash''), content = Other True (Inr (u ''12345'')),
      additionalFields = [], attachments = None\<rparr>"

text \<open>A \<open>JSON.parse\<close> that knows three texts and rejects every other one.\<close>

definition stub_parse :: "ustring \<Rightarrow> js_thrown + EmailAnalysis option" where
  "stub_parse text =
     (if text = bug_json then Inr (Some bug_analysis)
      else if text = numeric_json then Inr (Some numeric_analysis)
      else if text = u ''null'' then Inr None
      else Inl (Error (u ''Unexpected token in JSON at position 0'')))"

section \<open>Outcomes of a single run\<close>

text \<open>A chat result from which no analysis is taken: nothing, the empty string, \<open>{}\<close>.\<close>

definition unanalyzable :: "ustring option \<Rightarrow> bool" where
  "unanalyzable r = (r = None \<or> r = Some [] \<or> r = Some (u ''{}''))"

definition pm_start :: "ustring list" where
  "pm_start = [emoji_search @ u '' Starting email analysis...'',
              emoji_mail @ u '' Extracting email data and context...'']"

definition pm_extracted :: "ustring \<Rightarrow> ustring list" where
  "pm_extracted extracted =
     pm_start @ [extracted, emoji_search @ u '' Validating required fields...'']"

definition unanalyzable_log :: ustring where
  "unanalyzable_log =
     js_join
       [emoji_search @ u '' Starting email analysis...'',
        emoji_mail @ u '' Extracting email data and context...'',
        emoji_warning @ u '' Analysis failed - Unable to extract email data'',
        emoji_person @ u '' Email has been queued for human review''] (u ''\<newline>'')"

text \<open>
  The three ways a progress log can end: a ticket was created, the email was queued for
  human review, or the submission error is reported.
\<close>

definition resolved :: "ustring \<Rightarrow> bool" where
  "resolved log =
     (js_includes log (u ''ticket created successfully!'')
      \<or> js_includes log (u ''queued for human review'')
      \<or> js_includes log (u ''Error creating ticket: Failed to create Jira ticket: '')
      \<or> js_includes log (u ''Error creating ticket: Failed to create ServiceNow ticket: ''))"

text \<open>The files read, in order, among the events of a trace.\<close>

fun files_read :: "event list \<Rightarrow> ustring list" where
  "files_read [] = []"
| "files_read (ReadFile f # es) = f # files_read es"
| "files_read (e # es) = files_read es"

text \<open>
  A bulk run over two files: the chat command answers with the JSON text of the bug
  report, the issue tracker creates PROJ-123, and of the two files only
  \<open>bug.eml\<close> exists.
\<close>

definition bulk_env :: env where
  "bulk_env =
     stub_env (Inr (Some bug_json)) stub_parse (Inr (Response (Str (u ''PROJ-123''))))
       (Inr No_response) [(u ''bug.eml'', bug_email)] None"

text \<open>
  A handler with one item in its queue, and a caller that takes a snapshot of the queue
  and overwrites the \<open>reason\<close> of the first item it finds there.
\<close>

definition review_item :: HumanReviewItem where
  "review_item =
     \<lparr>reason = u ''Missing required fields'', emailContent = bug_email,
      missingFields = [u ''Priority''], partialAnalysis = None\<rparr>"

definition one_queued :: state where
  "one_queued = queue_for_review review_item new_ChatCommandHandler"

definition tamper :: "HumanReviewItem \<Rightarrow> HumanReviewItem" where
  "tamper item = item\<lparr>reason := u ''done''\<rparr>"

definition tampered :: state where
  "tampered =
     (case getHumanReviewQueue one_queued of
        (snapshot, st) \<Rightarrow> mutate_item (hd (array_at st snapshot)) tamper st)"

section \<open>Example inputs\<close>

definition feature_bug_analysis :: EmailAnalysis where
  "feature_bug_analysis =
     \<lparr>requestType = Str (u ''Bug Report''), priority = Str (u ''high''),
      keyPoints = [], actionItems = [], accountNumber = Str (u ''ACC1''),
      customerId = Undefined, subject = Str (u ''Epic feature story''),
      content = Str (u ''A task: the new feature has a BUG''),
      additionalFields = [], attachments = None\<rparr>"

section \<open>Properties of the string operations\<close>

lemma js_startsWith_iff: "js_startsWith s p \<longleftrightarrow> (\<exists>q. s = p @ q)"
proof
  assume "js_startsWith s p"
  then have "s = p @ drop (length p) s"
    unfolding js_startsWith_def by (metis append_take_drop_id)
  then show "\<exists>q. s = p @ q" ..
next
  assume "\<exists>q. s = p @ q"
  then show "js_startsWith s p"
    by (auto simp: js_startsWith_def)
qed

lemma js_includes_iff: "js_includes s t \<longleftrightarrow> (\<exists>p q. s = p @ t @ q)"
proof (induction s)
  case Nil
  show ?case by auto
next
  case (Cons c cs)
  show ?case
  proof
    assume "js_includes (c # cs) t"
    then consider "js_startsWith (c # cs) t" | "js_includes cs t" by auto
    then show "\<exists>p q. c # cs = p @ t @ q"
    proof cases
      case 1
      then obtain q where "c # cs = t @ q" by (auto simp: js_startsWith_iff)
      then have "c # cs = [] @ t @ q" by simp
      then show ?thesis by blast
    next
      case 2
      then obtain p q where "cs = p @ t @ q" using Cons.IH by blast
      then have "c # cs = (c # p) @ t @ q" by simp
      then show ?thesis by blast
    qed
  next
    assume "\<exists>p q. c # cs = p @ t @ q"
    then obtain p q where pq: "c # cs = p @ t @ q" by blast
    show "js_includes (c # cs) t"
    proof (cases p)
      case Nil
      with pq have "js_startsWith (c # cs) t" by (auto simp: js_startsWith_iff)
      then show ?thesis by simp
    next
      case (Cons d p')
      with pq have "cs = p' @ t @ q" by simp
      then have "js_includes cs t" using Cons.IH by blast
      then show ?thesis by simp
    qed
  qed
qed

lemma js_includes_mid: "js_includes (p @ t @ q) t"
  unfolding js_includes_iff by blast

lemma js_includes_append1: "js_includes a t \<Longrightarrow> js_includes (a @ b) t"
  unfolding js_includes_iff by (metis append.assoc)

lemma js_includes_append2: "js_includes b t \<Longrightarrow> js_includes (a @ b) t"
  unfolding js_includes_iff by (metis append.assoc)

lemma js_join_member: "x \<in> set xs \<Longrightarrow> \<exists>p q. js_join xs sep = p @ x @ q"
proof (induction xs sep rule: js_join.induct)
  case (1 sep)
  then show ?case by simp
next
  case (2 y sep)
  then have "js_join [y] sep = [] @ x @ []" by simp
  then show ?case by blast
next
  case (3 y z zs sep)
  show ?case
  proof (cases "x = y")
    case True
    then have "js_join (y # z # zs) sep = [] @ x @ (sep @ js_join (z # zs) sep)" by simp
    then show ?thesis by blast
  next
    case False
    with 3 obtain p q where "js_join (z # zs) sep = p @ x @ q" by auto
    then have "js_join (y # z # zs) sep = (y @ sep @ p) @ x @ q" by simp
    then show ?thesis by blast
  qed
qed

lemma js_includes_join:
  assumes "x \<in> set xs" and "js_includes x t"
  shows "js_includes (js_join xs sep) t"
proof -
  from assms(1) obtain p q where "js_join xs sep = p @ x @ q"
    using js_join_member by blast
  then show ?thesis
    using assms(2) by (simp add: js_includes_append1 js_includes_append2)
qed

section \<open>The field validator\<close>



section \<open>The ticket classifier\<close>

lemma lower_or_empty_textual:
  assumes "textual v"
  shows "lower_or_empty lc name v = Inr (lowered lc v)"
  using assms by (cases v) simp_all

lemma lower_or_empty_other:
  assumes "\<not> textual v"
  shows "lower_or_empty lc name v
           = Inl (Error (u ''analysis.'' @ name @ u ''?.toLowerCase is not a function''))"
  using assms by (cases v) simp_all

lemma classifyTicketType_textual:
  assumes "textual_fields a"
  shows "classifyTicketType lc a
           = Inr (classify_chain (lowered lc (content a)) (lowered lc (subject a))
                    (lowered lc (requestType a)))"
  using assms by (simp add: classifyTicketType_def textual_fields_def lower_or_empty_textual)

lemma classifyTicketType_throws:
  assumes "\<not> textual_fields a"
  shows "\<exists>m. classifyTicketType lc a = Inl (Error m)"
proof (cases "textual (content a)")
  case False
  then show ?thesis by (simp add: classifyTicketType_def lower_or_empty_other)
next
  case c: True
  show ?thesis
  proof (cases "textual (subject a)")
    case False
    with c show ?thesis
      by (simp add: classifyTicketType_def lower_or_empty_other lower_or_empty_textual)
  next
    case True
    with c assms have "\<not> textual (requestType a)" by (simp add: textual_fields_def)
    with c True show ?thesis
      by (simp add: classifyTicketType_def lower_or_empty_other lower_or_empty_textual)
  qed
qed

lemma classify_chain_spec:
  "classify_chain ct sj rt = first_match (rule_chain rt sj ct) (u ''servicenow-request'')"
  by (simp add: classify_chain_def rule_chain_def first_match_def)

lemma classify_chain_bug:
  assumes "rt = u ''bug report'' \<or> js_includes ct (u ''bug'') \<or> js_includes ct (u ''crash'')"
  shows "classify_chain ct sj rt = u ''jira-bug''"
  using assms by (auto simp: classify_chain_def)

lemma classify_chain_types: "classify_chain ct sj rt \<in> set ticket_types"
  by (simp add: classify_chain_def ticket_types_def)

lemma classify_chain_prefix:
  "js_startsWith (classify_chain ct sj rt) (u ''jira-'')
   \<or> js_startsWith (classify_chain ct sj rt) (u ''servicenow-'')"
  by (simp add: classify_chain_def js_startsWith_def)

text \<open>
  C1 (amended). For an analysis whose request type, subject and content are each a string
  or absent, the classifier is the ordered rule chain over the three lower-cased fields
  in which the first matching rule decides: when the lower-cased request type is
  "bug report", or the lower-cased content contains "bug" or "crash", the result is
  jira-bug whatever else matches, and when none of the six rules matches it is
  servicenow-request. The outcome depends on those three fields only.
\<close>

theorem classifyTicketType_rule_chain:
  "(textual_fields a
      \<longrightarrow> classifyTicketType lc a =
           Inr (first_match
                  (rule_chain (lowered lc (requestType a)) (lowered lc (subject a))
                     (lowered lc (content a)))
                  (u ''servicenow-request'')))
   \<and> (requestType a = requestType b \<and> subject a = subject b \<and> content a = content b
        \<longrightarrow> classifyTicketType lc a = classifyTicketType lc b)
   \<and> (textual_fields a
        \<and> (lowered lc (requestType a) = u ''bug report''
             \<or> js_includes (lowered lc (content a)) (u ''bug'')
             \<or> js_includes (lowered lc (content a)) (u ''crash''))
        \<longrightarrow> classifyTicketType lc a = Inr (u ''jira-bug''))
   \<and> (textual_fields a
        \<and> list_all (\<lambda>r. \<not> fst r)
             (rule_chain (lowered lc (requestType a)) (lowered lc (subject a))
                (lowered lc (content a)))
        \<longrightarrow> classifyTicketType lc a = Inr (u ''servicenow-request''))"
proof (intro conjI impI)
  assume "textual_fields a"
  then show "classifyTicketType lc a =
           Inr (first_match
                  (rule_chain (lowered lc (requestType a)) (lowered lc (subject a))
                     (lowered lc (content a)))
                  (u ''servicenow-request''))"
    by (simp only: classifyTicketType_textual classify_chain_spec)
next
  assume "requestType a = requestType b \<and> subject a = subject b \<and> content a = content b"
  then show "classifyTicketType lc a = classifyTicketType lc b"
    by (simp add: classifyTicketType_def split: sum.splits)
next
  assume h: "textual_fields a
        \<and> (lowered lc (requestType a) = u ''bug report''
             \<or> js_includes (lowered lc (content a)) (u ''bug'')
             \<or> js_includes (lowered lc (content a)) (u ''crash''))"
  then have "classify_chain (lowered lc (content a)) (lowered lc (subject a))
                    (lowered lc (requestType a)) = u ''jira-bug''"
    by (intro classify_chain_bug) blast
  with h show "classifyTicketType lc a = Inr (u ''jira-bug'')"
    by (simp only: classifyTicketType_textual)
next
  assume h: "textual_fields a
        \<and> list_all (\<lambda>r. \<not> fst r)
             (rule_chain (lowered lc (requestType a)) (lowered lc (subject a))
                (lowered lc (content a)))"
  then have "first_match (rule_chain (lowered lc (requestType a)) (lowered lc (subject a))
                (lowered lc (content a))) (u ''servicenow-request'') = u ''servicenow-request''"
    by (simp add: rule_chain_def first_match_def)
  with h show "classifyTicketType lc a = Inr (u ''servicenow-request'')"
    by (simp only: classifyTicketType_textual classify_chain_spec)
qed

theorem classifyTicketType_rule_chain_witness:
  "textual_fields feature_bug_analysis
   \<and> lowered ascii_lower (requestType feature_bug_analysis) = u ''bug report''
   \<and> js_includes (lowered ascii_lower (subject feature_bug_analysis)) (u ''feature'')
   \<and> js_includes (lowered ascii_lower (content feature_bug_analysis)) (u ''task'')
   \<and> classifyTicketType ascii_lower feature_bug_analysis = Inr (u ''jira-bug'')"
proof -
  have t: "textual_fields feature_bug_analysis"
    by (simp add: textual_fields_def feature_bug_analysis_def)
  have h: "lowered ascii_lower (requestType feature_bug_analysis) = u ''bug report''"
    by (simp add: feature_bug_analysis_def ascii_lower_def lower_char_def)
  have "classifyTicketType ascii_lower feature_bug_analysis = Inr (u ''jira-bug'')"
    using classifyTicketType_rule_chain [of feature_bug_analysis ascii_lower feature_bug_analysis]
      t h by blast
  then show ?thesis
    using t h
    by (simp add: feature_bug_analysis_def ascii_lower_def lower_char_def js_startsWith_def)
qed

text \<open>
  A bug report whose subject is the number 42: the request type is "Bug Report" and the
  content contains "bug", yet the classifier throws instead of returning jira-bug.
\<close>

theorem classifyTicketType_numeric_subject:
  "classifyTicketType ascii_lower
     \<lparr>requestType = Str (u ''Bug Report''), priority = Str (u ''high''), keyPoints = [],
      actionItems = [], accountNumber = Str (u ''ACC1''), customerId = Undefined,
      subject = Other True (Inr (u ''42'')), content = Str (u ''The app has a bug''),
      additionalFields = [], attachments = None\<rparr>
   = Inl (Error (u ''analysis.subject?.toLowerCase is not a function''))"
  by (simp add: classifyTicketType_def)

text \<open>
  C10 (amended). For an analysis whose request type, subject and content are each a
  string or absent, the classifier returns, and what it returns is one of the seven
  category strings; an absent field counts as the empty string, and an analysis with all
  three fields absent is classified servicenow-request. For an analysis in which one of
  the three is any other value (a number, a boolean, an array, an object) it throws a
  TypeError.
\<close>

theorem classifyTicketType_total:
  "(textual_fields a
      \<longrightarrow> (\<exists>t. classifyTicketType lc a = Inr t \<and> t \<in> set ticket_types))
   \<and> lower_or_empty lc name Undefined = Inr [] \<and> lower_or_empty lc name Null = Inr []
   \<and> classifyTicketType lc (a\<lparr>requestType := Undefined, subject := Undefined,
        content := Undefined\<rparr>) = Inr (u ''servicenow-request'')
   \<and> classifyTicketType lc (a\<lparr>requestType := Null, subject := Null,
        content := Null\<rparr>) = Inr (u ''servicenow-request'')
   \<and> (\<not> textual_fields a \<longrightarrow> (\<exists>m. classifyTicketType lc a = Inl (Error m)))"
proof (intro conjI impI)
  assume "textual_fields a"
  then show "\<exists>t. classifyTicketType lc a = Inr t \<and> t \<in> set ticket_types"
    by (simp add: classifyTicketType_textual classify_chain_types)
next
  assume "\<not> textual_fields a"
  then show "\<exists>m. classifyTicketType lc a = Inl (Error m)"
    by (rule classifyTicketType_throws)
qed (simp_all add: classifyTicketType_def classify_chain_def js_startsWith_def)

theorem classifyTicketType_total_witness:
  "textual_fields feature_bug_analysis
   \<and> classifyTicketType ascii_lower feature_bug_analysis = Inr (u ''jira-bug'')
   \<and> u ''jira-bug'' \<in> set ticket_types
   \<and> \<not> textual_fields (feature_bug_analysis\<lparr>content := Other True (Inr (u ''1,2''))\<rparr>)
   \<and> classifyTicketType ascii_lower (feature_bug_analysis\<lparr>content := Other True (Inr (u ''1,2''))\<rparr>)
       = Inl (Error (u ''analysis.content?.toLowerCase is not a function''))"
proof -
  have t: "textual_fields feature_bug_analysis"
    by (simp add: textual_fields_def feature_bug_analysis_def)
  have n: "\<not> textual_fields (feature_bug_analysis\<lparr>content := Other True (Inr (u ''1,2''))\<rparr>)"
    by (simp add: textual_fields_def)
  from classifyTicketType_total [of feature_bug_analysis ascii_lower] t
  obtain ty where "classifyTicketType ascii_lower feature_bug_analysis = Inr ty"
    and "ty \<in> set ticket_types"
    by blast
  moreover from classifyTicketType_total
    [of "feature_bug_analysis\<lparr>content := Other True (Inr (u ''1,2''))\<rparr>" ascii_lower] n
  obtain m where "classifyTicketType ascii_lower
      (feature_bug_analysis\<lparr>content := Other True (Inr (u ''1,2''))\<rparr>) = Inl (Error m)"
    by blast
  ultimately show ?thesis
    using t n
    by (simp add: classifyTicketType_def feature_bug_analysis_def ascii_lower_def lower_char_def
        classify_chain_def js_startsWith_def ticket_types_def)
qed

text \<open>
  An analysis record whose content is the number 0 and whose other fields are absent:
  the classifier throws.
\<close>

theorem classifyTicketType_numeric_content:
  "classifyTicketType ascii_lower
     \<lparr>requestType = Undefined, priority = Undefined, keyPoints = [], actionItems = [],
      accountNumber = Undefined, customerId = Undefined, subject = Undefined,
      content = Other False (Inr (u ''0'')), additionalFields = [], attachments = None\<rparr>
   = Inl (Error (u ''analysis.content?.toLowerCase is not a function''))"
  by (simp add: classifyTicketType_def)

section \<open>The store\<close>

lemma fold_max_bounds:
  "(a::nat) \<le> fold max xs a \<and> (\<forall>x\<in>set xs. x \<le> fold max xs a)"
proof (induction xs arbitrary: a)
  case Nil
  show ?case by simp
next
  case (Cons y ys)
  from Cons.IH [of "max y a"] show ?case by auto
qed

lemma used_less_fresh: "x \<in> set (used st) \<Longrightarrow> x < fresh st"
  using fold_max_bounds [of 0 "used st"] by (auto simp: fresh_def)

lemma queue_used: "humanReviewQueue st \<in> set (used st)"
  by (simp add: used_def)

lemma array_at_used: "r \<in> set (array_at st a) \<Longrightarrow> r \<in> set (used st)"
proof -
  assume r: "r \<in> set (array_at st a)"
  then obtain refs where m: "map_of (arrays st) a = Some refs" and "r \<in> set refs"
    by (cases "map_of (arrays st) a") (auto simp: array_at_def)
  moreover from m have "(a, refs) \<in> set (arrays st)" by (rule map_of_SomeD)
  ultimately have "r \<in> set (concat (map snd (arrays st)))" by force
  then show ?thesis by (simp add: used_def)
qed

lemma fresh_not_queue: "fresh st \<noteq> humanReviewQueue st"
  using used_less_fresh [OF queue_used, of st] by simp

lemma fresh_not_in_array: "fresh st \<notin> set (array_at st a)"
  using used_less_fresh [OF array_at_used, of "fresh st" st a] by auto

lemma array_at_emit: "array_at (emit e st) a = array_at st a"
  by (simp add: array_at_def emit_def)

lemma item_at_emit: "item_at (emit e st) = item_at st"
  by (rule ext) (simp add: item_at_def emit_def)

lemma queue_emit: "humanReviewQueue (emit e st) = humanReviewQueue st"
  by (simp add: emit_def)

lemma queue_items_emit: "queue_items (emit e st) = queue_items st"
  by (simp add: queue_items_def array_at_emit item_at_emit queue_emit)

lemma trace_emit: "trace (emit e st) = trace st @ [e]"
  by (simp add: emit_def)

lemma array_at_add:
  "array_at (addToHumanReviewQueue r st) (humanReviewQueue st)
     = array_at st (humanReviewQueue st) @ [r]"
  by (simp add: addToHumanReviewQueue_def array_at_def emit_def)

lemma item_at_add: "item_at (addToHumanReviewQueue r st) = item_at st"
  by (rule ext) (simp add: addToHumanReviewQueue_def item_at_def emit_def)

lemma queue_add: "humanReviewQueue (addToHumanReviewQueue r st) = humanReviewQueue st"
  by (simp add: addToHumanReviewQueue_def emit_def)

lemma queue_items_add:
  "queue_items (addToHumanReviewQueue r st) = queue_items st @ [item_at st r]"
  by (simp add: queue_items_def array_at_add item_at_add queue_add)

lemma trace_add:
  "trace (addToHumanReviewQueue r st) =
     trace st @ [ShowInformationMessage
                   (u ''Email queued for human review: '' @ reason (item_at st r))]"
  by (simp add: addToHumanReviewQueue_def emit_def)

lemma item_at_new_item:
  "item_at (snd (new_item item st)) r = (if r = fresh st then item else item_at st r)"
  by (simp add: new_item_def item_at_def)

lemma queue_items_new_item: "queue_items (snd (new_item item st)) = queue_items st"
proof -
  have "\<And>r. r \<in> set (array_at st (humanReviewQueue st)) \<Longrightarrow> r \<noteq> fresh st"
    using fresh_not_in_array by blast
  moreover have "array_at (snd (new_item item st)) (humanReviewQueue st)
      = array_at st (humanReviewQueue st)"
    by (simp add: new_item_def array_at_def)
  moreover have "humanReviewQueue (snd (new_item item st)) = humanReviewQueue st"
    by (simp add: new_item_def)
  ultimately show ?thesis
    by (simp add: queue_items_def item_at_new_item)
qed

lemma queue_for_review_new_item:
  "queue_for_review item st = addToHumanReviewQueue (fst (new_item item st)) (snd (new_item item st))"
  by (simp add: queue_for_review_def split_def)

lemma queue_items_queue_for_review:
  "queue_items (queue_for_review item st) = queue_items st @ [item]"
  unfolding queue_for_review_new_item queue_items_add queue_items_new_item
  by (simp add: item_at_new_item) (simp add: new_item_def)

lemma trace_queue_for_review:
  "trace (queue_for_review item st) =
     trace st @ [ShowInformationMessage (u ''Email queued for human review: '' @ reason item)]"
  unfolding queue_for_review_new_item trace_add
  by (simp add: item_at_new_item) (simp add: new_item_def)

lemma queue_items_getHumanReviewQueue:
  "queue_items (snd (getHumanReviewQueue st)) = queue_items st"
  using fresh_not_queue [of st]
  by (simp add: getHumanReviewQueue_def queue_items_def array_at_def item_at_def)

lemma snapshot_same_references:
  "array_at (snd (getHumanReviewQueue st)) (fst (getHumanReviewQueue st))
     = array_at st (humanReviewQueue st)"
  by (simp add: getHumanReviewQueue_def array_at_def)

lemma snapshot_new_array:
  "fst (getHumanReviewQueue st) \<noteq> humanReviewQueue (snd (getHumanReviewQueue st))
   \<and> fst (getHumanReviewQueue st) \<notin> set (map fst (arrays st))"
proof -
  have "\<And>a. a \<in> set (map fst (arrays st)) \<Longrightarrow> a < fresh st"
    by (rule used_less_fresh) (simp add: used_def)
  then have "fresh st \<notin> set (map fst (arrays st))" by blast
  then show ?thesis
    using fresh_not_queue [of st] by (simp add: getHumanReviewQueue_def)
qed

lemma queue_items_mutate_other:
  assumes "r \<noteq> humanReviewQueue st"
  shows "queue_items (mutate_array r f st) = queue_items st"
  using assms by (simp add: queue_items_def mutate_array_def array_at_def item_at_def)

lemma queue_items_mutate_item:
  "queue_items (mutate_item r g st) =
     map (\<lambda>x. if x = r then g (item_at st r) else item_at st x)
       (array_at st (humanReviewQueue st))"
  by (simp add: queue_items_def mutate_item_def array_at_def item_at_def)

section \<open>Properties of the handler\<close>

lemma handleSingle_chat_throws:
  assumes "chat_open ev (trace st) c = Inl e"
  shows "handleSingleEmailAnalysis ev c st = (Inl e, emit (ChatOpen c) st)"
  using assms by (simp add: handleSingleEmailAnalysis_def)

lemma handleSingle_unanalyzable:
  assumes "chat_open ev (trace st) c = Inr r" and "unanalyzable r"
  shows "handleSingleEmailAnalysis ev c st = queue_unanalyzable c pm_start (emit (ChatOpen c) st)"
  using assms
  by (auto simp: handleSingleEmailAnalysis_def appendProgress_def unanalyzable_def pm_start_def)

lemma handleSingle_parse_throws:
  assumes "chat_open ev (trace st) c = Inr (Some t)" and "\<not> unanalyzable (Some t)"
    and "JSON_parse ev t = Inl e"
  shows "handleSingleEmailAnalysis ev c st = (Inl e, emit (ChatOpen c) st)"
  using assms by (simp add: handleSingleEmailAnalysis_def unanalyzable_def)

lemma handleSingle_parse_falsy:
  assumes "chat_open ev (trace st) c = Inr (Some t)" and "\<not> unanalyzable (Some t)"
    and "JSON_parse ev t = Inr None"
  shows "handleSingleEmailAnalysis ev c st = queue_unanalyzable c pm_start (emit (ChatOpen c) st)"
  using assms
  by (simp add: handleSingleEmailAnalysis_def unanalyzable_def appendProgress_def pm_start_def)

lemma handleSingle_interpolation_throws:
  assumes "chat_open ev (trace st) c = Inr (Some t)" and "\<not> unanalyzable (Some t)"
    and "JSON_parse ev t = Inr (Some a)" and "extracted_message a = Inl e"
  shows "handleSingleEmailAnalysis ev c st = (Inl e, emit (ChatOpen c) st)"
  using assms by (simp add: handleSingleEmailAnalysis_def unanalyzable_def)

lemma handleSingle_missing:
  assumes "chat_open ev (trace st) c = Inr (Some t)" and "\<not> unanalyzable (Some t)"
    and "JSON_parse ev t = Inr (Some a)" and "extracted_message a = Inr x"
    and "validateRequiredFields a \<noteq> []"
  shows "handleSingleEmailAnalysis ev c st =
     (Inr (js_join (pm_extracted x @
         [emoji_warning @ u '' Missing required fields: ''
            @ js_join (validateRequiredFields a) (u '', ''),
          emoji_person @ u '' Email has been queued for human review'']) (u ''\<newline>'')),
      queue_for_review
        \<lparr>reason = u ''Missing required fields'', emailContent = c,
         missingFields = validateRequiredFields a, partialAnalysis = Some a\<rparr>
        (emit (ChatOpen c) st))"
  using assms
  by (simp add: handleSingleEmailAnalysis_def unanalyzable_def appendProgress_def pm_extracted_def
      pm_start_def Let_def)

lemma handleSingle_classify_throws:
  assumes "chat_open ev (trace st) c = Inr (Some t)" and "\<not> unanalyzable (Some t)"
    and "JSON_parse ev t = Inr (Some a)" and "extracted_message a = Inr x"
    and "validateRequiredFields a = []"
    and "classifyTicketType (toLowerCase ev) a = Inl e"
  shows "handleSingleEmailAnalysis ev c st = (Inl e, emit (ChatOpen c) st)"
  using assms by (simp add: handleSingleEmailAnalysis_def unanalyzable_def Let_def)

lemma handleSingle_valid:
  assumes "chat_open ev (trace st) c = Inr (Some t)" and "\<not> unanalyzable (Some t)"
    and "JSON_parse ev t = Inr (Some a)" and "extracted_message a = Inr x"
    and "validateRequiredFields a = []"
    and "classifyTicketType (toLowerCase ev) a = Inr ticketType"
  shows "handleSingleEmailAnalysis ev c st =
     create_and_submit ev a ticketType
       (pm_extracted x @ [emoji_check @ u '' All required fields validated'',
                          emoji_cycle @ u '' Classifying request type...''])
       (emit (ChatOpen c) st)"
  using assms
  by (simp add: handleSingleEmailAnalysis_def unanalyzable_def appendProgress_def pm_extracted_def
      pm_start_def Let_def)

lemma handleSingle_cases [case_names chat_throws unanalyzable parse_throws parse_falsy
    interpolation_throws missing classify_throws valid]:
  obtains e where "chat_open ev (trace st) c = Inl e"
  | r where "chat_open ev (trace st) c = Inr r" "unanalyzable r"
  | t e where "chat_open ev (trace st) c = Inr (Some t)" "\<not> unanalyzable (Some t)"
      "JSON_parse ev t = Inl e"
  | t where "chat_open ev (trace st) c = Inr (Some t)" "\<not> unanalyzable (Some t)"
      "JSON_parse ev t = Inr None"
  | t a e where "chat_open ev (trace st) c = Inr (Some t)" "\<not> unanalyzable (Some t)"
      "JSON_parse ev t = Inr (Some a)" "extracted_message a = Inl e"
  | t a x where "chat_open ev (trace st) c = Inr (Some t)" "\<not> unanalyzable (Some t)"
      "JSON_parse ev t = Inr (Some a)" "extracted_message a = Inr x"
      "validateRequiredFields a \<noteq> []"
  | t a x e where "chat_open ev (trace st) c = Inr (Some t)" "\<not> unanalyzable (Some t)"
      "JSON_parse ev t = Inr (Some a)" "extracted_message a = Inr x"
      "validateRequiredFields a = []" "classifyTicketType (toLowerCase ev) a = Inl e"
  | t a x ticketType where "chat_open ev (trace st) c = Inr (Some t)"
      "\<not> unanalyzable (Some t)"
      "JSON_parse ev t = Inr (Some a)" "extracted_message a = Inr x"
      "validateRequiredFields a = []" "classifyTicketType (toLowerCase ev) a = Inr ticketType"
proof (cases "chat_open ev (trace st) c")
  case (Inl e)
  then show ?thesis using that(1) by blast
next
  case (Inr r)
  show ?thesis
  proof (cases "unanalyzable r")
    case True
    with Inr show ?thesis using that(2) by blast
  next
    case False
    then obtain t where r: "r = Some t" by (cases r) (auto simp: unanalyzable_def)
    show ?thesis
    proof (cases "JSON_parse ev t")
      case (Inl e)
      with Inr False r show ?thesis using that(3) by blast
    next
      case p: (Inr v)
      show ?thesis
      proof (cases v)
        case None
        with Inr False r p show ?thesis using that(4) by blast
      next
        case (Some a)
        show ?thesis
        proof (cases "extracted_message a")
          case (Inl e)
          with Inr False r p Some show ?thesis using that(5) by blast
        next
          case x: (Inr x)
          show ?thesis
          proof (cases "validateRequiredFields a = []")
            case miss: False
            with Inr False r p Some x show ?thesis using that(6) by blast
          next
            case ok: True
            show ?thesis
            proof (cases "classifyTicketType (toLowerCase ev) a")
              case (Inl e)
              with Inr False r p Some x ok show ?thesis using that(7) by blast
            next
              case k: (Inr ticketType)
              with Inr False r p Some x ok show ?thesis using that(8) by blast
            qed
          qed
        qed
      qed
    qed
  qed
qed

text \<open>
  The two submit functions: whatever goes wrong inside the \<open>try\<close> (the command throws,
  it returns \<open>undefined\<close> or \<open>null\<close>, the property read cannot be converted to a
  string) is thrown again as an error that names the target system.
\<close>

lemma submitJiraTicket_wraps:
  assumes "fst (submitJiraTicket ev t st) = Inl err"
  shows "\<exists>m. err = Error (u ''Failed to create Jira ticket: '' @ m)"
  using assms by (auto simp: submitJiraTicket_def split: sum.splits)

lemma submitServiceNowTicket_wraps:
  assumes "fst (submitServiceNowTicket ev t st) = Inl err"
  shows "\<exists>m. err = Error (u ''Failed to create ServiceNow ticket: '' @ m)"
  using assms by (auto simp: submitServiceNowTicket_def split: sum.splits)

lemma submitJiraTicket_command_throws:
  assumes "jira_createIssue ev (trace st) t = Inl e"
  shows "fst (submitJiraTicket ev t st)
           = Inl (Error (u ''Failed to create Jira ticket: '' @ error_message e))"
  using assms by (simp add: submitJiraTicket_def)

lemma submitServiceNowTicket_command_throws:
  assumes "servicenow_createTicket ev (trace st) t = Inl e"
  shows "fst (submitServiceNowTicket ev t st)
           = Inl (Error (u ''Failed to create ServiceNow ticket: '' @ error_message e))"
  using assms by (simp add: submitServiceNowTicket_def)

lemma submitJiraTicket_created:
  assumes "jira_createIssue ev (trace st) t = Inr (Response (Str k))"
  shows "fst (submitJiraTicket ev t st) = Inr (u ''Jira ticket created: '' @ k)"
  using assms by (simp add: submitJiraTicket_def read_property_def)

lemma snd_submitJiraTicket: "snd (submitJiraTicket ev t st) = emit (JiraCreateIssue t) st"
  by (simp add: submitJiraTicket_def split: sum.splits)

lemma snd_submitServiceNowTicket:
  "snd (submitServiceNowTicket ev t st) = emit (ServiceNowCreateTicket t) st"
  by (simp add: submitServiceNowTicket_def split: sum.splits)

lemma jira_try_submission_throws:
  assumes "fst (submitJiraTicket ev
                  (createJiraTicket a (js_index (js_split t (u ''-'')) 1)) st) = Inl err"
  shows "fst (jira_try ev a t pm st) = Some err"
proof -
  obtain r s where j:
    "submitJiraTicket ev (createJiraTicket a (js_index (js_split t (u ''-'')) 1)) st = (r, s)"
    by (cases "submitJiraTicket ev (createJiraTicket a (js_index (js_split t (u ''-'')) 1)) st")
  with assms have "r = Inl err" by simp
  with j show ?thesis by (simp add: jira_try_def Let_def)
qed

lemma servicenow_try_submission_throws:
  assumes "fst (submitServiceNowTicket ev
                  (createServiceNowTicket a (js_index (js_split t (u ''-'')) 1)) st) = Inl err"
  shows "fst (servicenow_try ev a t pm st) = Some err"
proof -
  obtain r s where j:
    "submitServiceNowTicket ev (createServiceNowTicket a (js_index (js_split t (u ''-'')) 1)) st
       = (r, s)"
    by (cases "submitServiceNowTicket ev
                 (createServiceNowTicket a (js_index (js_split t (u ''-'')) 1)) st")
  with assms have "r = Inl err" by simp
  with j show ?thesis by (simp add: servicenow_try_def Let_def)
qed

lemma snd_jira_try:
  "snd (snd (jira_try ev a t pm st))
     = emit (JiraCreateIssue (createJiraTicket a (js_index (js_split t (u ''-'')) 1))) st"
proof -
  obtain r s where j:
    "submitJiraTicket ev (createJiraTicket a (js_index (js_split t (u ''-'')) 1)) st = (r, s)"
    by (cases "submitJiraTicket ev (createJiraTicket a (js_index (js_split t (u ''-'')) 1)) st")
  then have s: "s = emit (JiraCreateIssue (createJiraTicket a (js_index (js_split t (u ''-'')) 1))) st"
    using snd_submitJiraTicket [of ev "createJiraTicket a (js_index (js_split t (u ''-'')) 1)" st]
    by simp
  show ?thesis
    unfolding jira_try_def Let_def j
    by (cases r) (simp_all add: s split: sum.splits)
qed

lemma snd_servicenow_try:
  "snd (snd (servicenow_try ev a t pm st))
     = emit (ServiceNowCreateTicket
               (createServiceNowTicket a (js_index (js_split t (u ''-'')) 1))) st"
proof -
  obtain r s where j:
    "submitServiceNowTicket ev (createServiceNowTicket a (js_index (js_split t (u ''-'')) 1)) st
       = (r, s)"
    by (cases "submitServiceNowTicket ev
                 (createServiceNowTicket a (js_index (js_split t (u ''-'')) 1)) st")
  then have s: "s = emit (ServiceNowCreateTicket
                      (createServiceNowTicket a (js_index (js_split t (u ''-'')) 1))) st"
    using snd_submitServiceNowTicket
      [of ev "createServiceNowTicket a (js_index (js_split t (u ''-'')) 1)" st]
    by simp
  show ?thesis
    unfolding servicenow_try_def Let_def j
    by (cases r) (simp_all add: s split: sum.splits)
qed

lemma snd_create_and_submit:
  "snd (create_and_submit ev a t pm st) =
     (if js_startsWith t (u ''jira-'')
      then emit (JiraCreateIssue (createJiraTicket a (js_index (js_split t (u ''-'')) 1))) st
      else if js_startsWith t (u ''servicenow-'')
      then emit (ServiceNowCreateTicket
                   (createServiceNowTicket a (js_index (js_split t (u ''-'')) 1))) st
      else st)"
proof -
  obtain e1 p1 s1 where j: "jira_try ev a t pm st = (e1, p1, s1)"
    by (metis prod_cases3)
  obtain e2 p2 s2 where s: "servicenow_try ev a t pm st = (e2, p2, s2)"
    by (metis prod_cases3)
  from j have s1: "s1 = emit (JiraCreateIssue
                      (createJiraTicket a (js_index (js_split t (u ''-'')) 1))) st"
    using snd_jira_try [of ev a t pm st] by simp
  from s have s2: "s2 = emit (ServiceNowCreateTicket
                      (createServiceNowTicket a (js_index (js_split t (u ''-'')) 1))) st"
    using snd_servicenow_try [of ev a t pm st] by simp
  show ?thesis
    unfolding create_and_submit_def j s
    by (cases e1; cases e2) (simp_all add: s1 s2)
qed

text \<open>The \<open>catch\<close> of the single-email run: what the \<open>try\<close> throws becomes a line of the log.\<close>

lemma create_and_submit_catches:
  assumes "js_startsWith t (u ''jira-'') \<or> js_startsWith t (u ''servicenow-'')"
    and "fst (if js_startsWith t (u ''jira-'') then jira_try ev a t pm st
              else servicenow_try ev a t pm st) = Some err"
  shows "\<exists>pm'. fst (create_and_submit ev a t pm st) =
           Inr (js_join (pm' @ [emoji_cross @ u '' Error creating ticket: '' @ error_message err])
                  (u ''\<newline>''))"
proof -
  obtain e1 p1 s1 where j:
    "(if js_startsWith t (u ''jira-'') then jira_try ev a t pm st
      else servicenow_try ev a t pm st) = (e1, p1, s1)"
    by (metis prod_cases3)
  with assms(2) have "e1 = Some err" by simp
  with assms(1) j show ?thesis
    unfolding create_and_submit_def by (auto simp: appendProgress_def)
qed

lemma create_and_submit_returns: "\<exists>log. fst (create_and_submit ev a t pm st) = Inr log"
proof -
  obtain e1 p1 s1 where j:
    "(if js_startsWith t (u ''jira-'') then jira_try ev a t pm st
      else servicenow_try ev a t pm st) = (e1, p1, s1)"
    by (metis prod_cases3)
  show ?thesis
    unfolding create_and_submit_def j by (cases e1) auto
qed

section \<open>Single-email runs\<close>

lemma queue_unanalyzable_result:
  "queue_unanalyzable c pm_start st =
     (Inr unanalyzable_log,
      queue_for_review
        \<lparr>reason = u ''Unable to analyze email'', emailContent = c,
         missingFields = [u ''Analysis Failed''], partialAnalysis = None\<rparr> st)"
  by (simp add: queue_unanalyzable_def appendProgress_def unanalyzable_log_def pm_start_def)

lemma unanalyzable_log_queued: "js_includes unanalyzable_log (u ''queued for human review'')"
proof -
  have "js_includes (emoji_person @ u '' Email has been '' @ u ''queued for human review'' @ [])
          (u ''queued for human review'')"
    using js_includes_mid [of "emoji_person @ u '' Email has been ''"
        "u ''queued for human review''" "[]"]
    by simp
  then show ?thesis
    unfolding unanalyzable_log_def
    by (intro js_includes_join [where x = "emoji_person @ u '' Email has been queued for human review''"])
      simp_all
qed

text \<open>
  C3. Whenever the chat command returns exactly \<open>{}\<close>, the empty string or nothing, the
  single-email run returns the four-line log that ends with the "queued for human review"
  line, the queue grows by exactly one item whose \<open>missingFields\<close> is the sentinel
  "Analysis Failed", and the only things done are the chat command and the notification:
  no validation or classification line is logged and no ticket command is executed.
\<close>

theorem unanalyzable_queued:
  assumes "chat_open ev (trace st) c = Inr r"
    and "r = Some (u ''{}'') \<or> r = Some [] \<or> r = None"
  shows "fst (handleSingleEmailAnalysis ev c st) = Inr unanalyzable_log
    \<and> js_includes unanalyzable_log (u ''queued for human review'')
    \<and> queue_items (snd (handleSingleEmailAnalysis ev c st)) =
        queue_items st @ [\<lparr>reason = u ''Unable to analyze email'', emailContent = c,
                            missingFields = [u ''Analysis Failed''], partialAnalysis = None\<rparr>]
    \<and> length (queue_items (snd (handleSingleEmailAnalysis ev c st))) = length (queue_items st) + 1
    \<and> trace (snd (handleSingleEmailAnalysis ev c st)) =
        trace st @ [ChatOpen c,
          ShowInformationMessage (u ''Email queued for human review: Unable to analyze email'')]"
proof -
  from assms(2) have "unanalyzable r" by (auto simp: unanalyzable_def)
  then have "handleSingleEmailAnalysis ev c st =
      queue_unanalyzable c pm_start (emit (ChatOpen c) st)"
    using assms(1) by (rule handleSingle_unanalyzable [rotated])
  then show ?thesis
    using unanalyzable_log_queued
    by (simp add: queue_unanalyzable_result queue_items_queue_for_review queue_items_emit
        trace_queue_for_review trace_emit)
qed

theorem unanalyzable_queued_witness:
  "chat_open (stub_env (Inr (Some (u ''{}''))) stub_parse (Inr No_response) (Inr No_response) []
       None)
     (trace new_ChatCommandHandler) (u ''From: a@b.com\<newline>\<newline>Hello'') = Inr (Some (u ''{}''))
   \<and> fst (handleSingleEmailAnalysis
        (stub_env (Inr (Some (u ''{}''))) stub_parse (Inr No_response) (Inr No_response) [] None)
        (u ''From: a@b.com\<newline>\<newline>Hello'') new_ChatCommandHandler) = Inr unanalyzable_log
   \<and> queue_items (snd (handleSingleEmailAnalysis
        (stub_env (Inr (Some (u ''{}''))) stub_parse (Inr No_response) (Inr No_response) [] None)
        (u ''From: a@b.com\<newline>\<newline>Hello'') new_ChatCommandHandler)) =
       [\<lparr>reason = u ''Unable to analyze email'',
         emailContent = u ''From: a@b.com\<newline>\<newline>Hello'',
         missingFields = [u ''Analysis Failed''], partialAnalysis = None\<rparr>]"
proof -
  have h: "chat_open
     (stub_env (Inr (Some (u ''{}''))) stub_parse (Inr No_response) (Inr No_response) [] None)
     (trace new_ChatCommandHandler) (u ''From: a@b.com\<newline>\<newline>Hello'') = Inr (Some (u ''{}''))"
    by (simp add: stub_env_def)
  have q: "queue_items new_ChatCommandHandler = []"
    by (simp add: queue_items_def new_ChatCommandHandler_def array_at_def)
  show ?thesis
    using unanalyzable_queued [OF h] h by (simp add: q)
qed

lemma handleChatCommand_single:
  assumes "activeTextEditor ev = Some c" and "findFiles ev (trace st) = Inr fs"
    and "length fs \<le> 1"
  shows "fst (handleChatCommand ev (u ''/start'') st) =
     (case fst (handleSingleEmailAnalysis ev c (emit FindFiles st)) of
        Inl e \<Rightarrow> u ''Error: '' @ error_message e
      | Inr log \<Rightarrow> log)"
  using assms
  by (cases "handleSingleEmailAnalysis ev c (emit FindFiles st)")
     (auto simp: handleChatCommand_def split: sum.splits)

lemma bug_json_analyzable: "\<not> unanalyzable (Some bug_json)"
  by (simp add: unanalyzable_def bug_json_def)

lemma numeric_json_analyzable: "\<not> unanalyzable (Some numeric_json)"
  by (simp add: unanalyzable_def numeric_json_def)

lemma numeric_json_not_bug_json: "numeric_json \<noteq> bug_json"
  by (simp add: numeric_json_def bug_json_def)

lemma bug_analysis_extracted:
  "extracted_message bug_analysis =
     Inr (emoji_check @ u '' Email data extracted successfully:''
          @ u ''\<newline>- Subject: '' @ u ''Bug Report: Crash''
          @ u ''\<newline>- Priority: '' @ u ''high''
          @ u ''\<newline>- Type: '' @ u ''Bug Report'')"
  by (simp add: extracted_message_def bug_analysis_def)

lemma numeric_analysis_extracted:
  "extracted_message numeric_analysis =
     Inr (emoji_check @ u '' Email data extracted successfully:''
          @ u ''\<newline>- Subject: '' @ u ''Bug Report: Crash''
          @ u ''\<newline>- Priority: '' @ u ''high''
          @ u ''\<newline>- Type: '' @ u ''Bug Report'')"
  by (simp add: extracted_message_def numeric_analysis_def)

lemma bug_analysis_valid: "validateRequiredFields bug_analysis = []"
  by (simp add: validateRequiredFields_def bug_analysis_def)

lemma numeric_analysis_valid: "validateRequiredFields numeric_analysis = []"
  by (simp add: validateRequiredFields_def numeric_analysis_def)

lemma bug_analysis_class: "classifyTicketType ascii_lower bug_analysis = Inr (u ''jira-bug'')"
proof -
  have t: "textual_fields bug_analysis"
    by (simp add: textual_fields_def bug_analysis_def)
  have "lowered ascii_lower (requestType bug_analysis) = u ''bug report''"
    by (simp add: bug_analysis_def ascii_lower_def lower_char_def)
  then have "classify_chain (lowered ascii_lower (content bug_analysis))
      (lowered ascii_lower (subject bug_analysis))
      (lowered ascii_lower (requestType bug_analysis)) = u ''jira-bug''"
    by (intro classify_chain_bug) blast
  with t show ?thesis
    by (simp only: classifyTicketType_textual)
qed

lemma numeric_analysis_class:
  "classifyTicketType lc numeric_analysis
     = Inl (Error (u ''analysis.content?.toLowerCase is not a function''))"
  by (simp add: classifyTicketType_def numeric_analysis_def)

text \<open>
  C6, at two runs the code can meet. The wrapping of submission failures and the
  \<open>catch\<close> around the submission hold (the lemmas above), but a single email does not
  always end in one of the three outcomes. When the chat command answers with a text that
  is not JSON, \<open>JSON.parse\<close> throws outside every \<open>try\<close> of the single-email run: the
  run throws the SyntaxError, nothing is queued for review, and the chat command handler
  answers with an \<open>Error: ...\<close> string that is none of the three outcomes. When the
  answer is JSON whose \<open>content\<close> is a number, all required fields are present and the
  classification, also outside the \<open>try\<close>, throws a TypeError with the same effect.
\<close>

theorem single_email_parse_failure_throws:
  "fst (handleSingleEmailAnalysis
     (stub_env (Inr (Some (u ''Sorry, I cannot analyze this email.''))) stub_parse
        (Inr No_response) (Inr No_response) [] (Some bug_email))
     bug_email new_ChatCommandHandler)
     = Inl (Error (u ''Unexpected token in JSON at position 0''))
   \<and> queue_items (snd (handleSingleEmailAnalysis
     (stub_env (Inr (Some (u ''Sorry, I cannot analyze this email.''))) stub_parse
        (Inr No_response) (Inr No_response) [] (Some bug_email))
     bug_email new_ChatCommandHandler)) = []
   \<and> fst (handleChatCommand
     (stub_env (Inr (Some (u ''Sorry, I cannot analyze this email.''))) stub_parse
        (Inr No_response) (Inr No_response) [] (Some bug_email))
     (u ''/start'') new_ChatCommandHandler)
       = u ''Error: Unexpected token in JSON at position 0''
   \<and> \<not> resolved (u ''Error: Unexpected token in JSON at position 0'')
   \<and> fst (handleSingleEmailAnalysis
     (stub_env (Inr (Some numeric_json)) stub_parse
        (Inr (Response (Str (u ''PROJ-123'')))) (Inr No_response) [] (Some bug_email))
     bug_email new_ChatCommandHandler)
     = Inl (Error (u ''analysis.content?.toLowerCase is not a function''))
   \<and> queue_items (snd (handleSingleEmailAnalysis
     (stub_env (Inr (Some numeric_json)) stub_parse
        (Inr (Response (Str (u ''PROJ-123'')))) (Inr No_response) [] (Some bug_email))
     bug_email new_ChatCommandHandler)) = []
   \<and> fst (handleChatCommand
     (stub_env (Inr (Some numeric_json)) stub_parse
        (Inr (Response (Str (u ''PROJ-123'')))) (Inr No_response) [] (Some bug_email))
     (u ''/start'') new_ChatCommandHandler)
       = u ''Error: analysis.content?.toLowerCase is not a function''
   \<and> \<not> resolved (u ''Error: analysis.content?.toLowerCase is not a function'')"
proof -
  let ?ev = "stub_env (Inr (Some (u ''Sorry, I cannot analyze this email.''))) stub_parse
               (Inr No_response) (Inr No_response) [] (Some bug_email)"
  let ?ev' = "stub_env (Inr (Some numeric_json)) stub_parse
               (Inr (Response (Str (u ''PROJ-123'')))) (Inr No_response) [] (Some bug_email)"
  have q: "\<And>e. queue_items (emit e new_ChatCommandHandler) = []"
    by (simp add: queue_items_emit)
      (simp add: queue_items_def new_ChatCommandHandler_def array_at_def)
  have p: "JSON_parse ?ev (u ''Sorry, I cannot analyze this email.'')
             = Inl (Error (u ''Unexpected token in JSON at position 0''))"
    by (simp add: stub_env_def stub_parse_def bug_json_def numeric_json_def)
  have n: "\<not> unanalyzable (Some (u ''Sorry, I cannot analyze this email.''))"
    by (simp add: unanalyzable_def)
  have h: "\<And>st. handleSingleEmailAnalysis ?ev bug_email st
            = (Inl (Error (u ''Unexpected token in JSON at position 0'')),
               emit (ChatOpen bug_email) st)"
    by (rule handleSingle_parse_throws [OF _ n p]) (simp add: stub_env_def)
  have c: "fst (handleChatCommand ?ev (u ''/start'') new_ChatCommandHandler)
      = u ''Error: Unexpected token in JSON at position 0''"
  proof -
    have a: "activeTextEditor ?ev = Some bug_email" by (simp add: stub_env_def)
    have f: "findFiles ?ev (trace new_ChatCommandHandler) = Inr []" by (simp add: stub_env_def)
    have l: "length ([] :: ustring list) \<le> 1" by simp
    show ?thesis
      unfolding handleChatCommand_single [OF a f l] h by simp
  qed
  have r: "\<not> resolved (u ''Error: Unexpected token in JSON at position 0'')"
    by (simp add: resolved_def js_startsWith_def)
  have p': "JSON_parse ?ev' numeric_json = Inr (Some numeric_analysis)"
    by (simp add: stub_env_def stub_parse_def numeric_json_not_bug_json)
  have k: "classifyTicketType (toLowerCase ?ev') numeric_analysis
     = Inl (Error (u ''analysis.content?.toLowerCase is not a function''))"
    by (rule numeric_analysis_class)
  have h': "\<And>st. handleSingleEmailAnalysis ?ev' bug_email st
            = (Inl (Error (u ''analysis.content?.toLowerCase is not a function'')),
               emit (ChatOpen bug_email) st)"
    by (rule handleSingle_classify_throws
          [OF _ numeric_json_analyzable p' numeric_analysis_extracted numeric_analysis_valid k])
      (simp add: stub_env_def)
  have c': "fst (handleChatCommand ?ev' (u ''/start'') new_ChatCommandHandler)
      = u ''Error: analysis.content?.toLowerCase is not a function''"
  proof -
    have a: "activeTextEditor ?ev' = Some bug_email" by (simp add: stub_env_def)
    have f: "findFiles ?ev' (trace new_ChatCommandHandler) = Inr []" by (simp add: stub_env_def)
    have l: "length ([] :: ustring list) \<le> 1" by simp
    show ?thesis
      unfolding handleChatCommand_single [OF a f l] h' by simp
  qed
  have r': "\<not> resolved (u ''Error: analysis.content?.toLowerCase is not a function'')"
    by (simp add: resolved_def js_startsWith_def)
  show ?thesis
    unfolding h h' snd_conv fst_conv q
    using c r c' r' by simp
qed

section \<open>The human-review queue\<close>

lemma queue_items_create_and_submit:
  "queue_items (snd (create_and_submit ev a t pm st)) = queue_items st"
  by (simp add: snd_create_and_submit queue_items_emit)

lemma queue_items_handleSingle:
  "\<exists>new. queue_items (snd (handleSingleEmailAnalysis ev c st)) = queue_items st @ new
     \<and> length new \<le> 1"
proof (cases ev st c rule: handleSingle_cases)
  case (chat_throws e)
  then show ?thesis by (simp add: handleSingle_chat_throws queue_items_emit)
next
  case (unanalyzable r)
  then show ?thesis
    by (simp add: handleSingle_unanalyzable queue_unanalyzable_result
        queue_items_queue_for_review queue_items_emit)
next
  case (parse_throws t e)
  then show ?thesis by (simp add: handleSingle_parse_throws queue_items_emit)
next
  case (parse_falsy t)
  then show ?thesis
    by (simp add: handleSingle_parse_falsy queue_unanalyzable_result
        queue_items_queue_for_review queue_items_emit)
next
  case (interpolation_throws t a e)
  then show ?thesis by (simp add: handleSingle_interpolation_throws queue_items_emit)
next
  case (missing t a x)
  then show ?thesis
    by (simp add: handleSingle_missing queue_items_queue_for_review queue_items_emit)
next
  case (classify_throws t a x e)
  then show ?thesis by (simp add: handleSingle_classify_throws queue_items_emit)
next
  case (valid t a x ticketType)
  then show ?thesis
    by (simp add: handleSingle_valid queue_items_create_and_submit queue_items_emit)
qed

lemma queue_items_bulk_loop:
  "\<exists>new. queue_items (snd (snd (bulk_loop ev n i files pm results st)))
             = queue_items st @ new"
proof (induction files arbitrary: i pm results st)
  case Nil
  show ?case by simp
next
  case (Cons f files)
  show ?case
  proof (cases "fs_readFile ev (trace st) f")
    case (Inl e)
    then show ?thesis
      using Cons.IH [of "i + 1" _ results "emit (ReadFile f) st"]
      by (simp add: queue_items_emit Let_def)
  next
    case r: (Inr raw)
    obtain res st' where h: "handleSingleEmailAnalysis ev raw (emit (ReadFile f) st) = (res, st')"
      by (cases "handleSingleEmailAnalysis ev raw (emit (ReadFile f) st)")
    from queue_items_handleSingle [of ev raw "emit (ReadFile f) st"] h
    obtain xs where xs: "queue_items st' = queue_items st @ xs"
      by (auto simp: queue_items_emit)
    have step: "\<And>pm' results'. \<exists>new.
        queue_items (snd (snd (bulk_loop ev n (i + 1) files pm' results' st')))
          = queue_items st @ new"
    proof -
      fix pm' results'
      obtain ys where "queue_items (snd (snd (bulk_loop ev n (i + 1) files pm' results' st')))
          = queue_items st' @ ys"
        using Cons.IH by blast
      then show "\<exists>new.
        queue_items (snd (snd (bulk_loop ev n (i + 1) files pm' results' st')))
          = queue_items st @ new"
        using xs by simp
    qed
    show ?thesis
      using r h step by (cases res) (simp_all add: Let_def)
  qed
qed

lemma queue_items_handleBulk:
  "\<exists>new. queue_items (snd (handleBulkAnalysis ev files st)) = queue_items st @ new"
proof -
  obtain pm results st' where b:
    "bulk_loop ev (length files) 0 files
       (appendProgress [] (emoji_cycle @ u '' Starting bulk analysis of ''
          @ show_nat (length files) @ u '' emails...\<newline>'')) [] st = (pm, results, st')"
    by (metis prod_cases3)
  have "snd (handleBulkAnalysis ev files st) = st'"
    unfolding handleBulkAnalysis_def Let_def b by simp
  moreover have "\<exists>new. queue_items st' = queue_items st @ new"
    using queue_items_bulk_loop [of ev "length files" 0 files
      "appendProgress [] (emoji_cycle @ u '' Starting bulk analysis of ''
          @ show_nat (length files) @ u '' emails...\<newline>'')" "[]" st]
    unfolding b by simp
  ultimately show ?thesis by simp
qed

lemma queue_items_handleChatCommand:
  "\<exists>new. queue_items (snd (handleChatCommand ev cmd st)) = queue_items st @ new"
proof (cases "cmd = u ''/start''")
  case False
  then show ?thesis by (simp add: handleChatCommand_def)
next
  case True
  show ?thesis
  proof (cases "activeTextEditor ev")
    case None
    with True show ?thesis by (simp add: handleChatCommand_def)
  next
    case (Some doc)
    show ?thesis
    proof (cases "findFiles ev (trace st)")
      case (Inl e)
      with True Some show ?thesis by (simp add: handleChatCommand_def queue_items_emit)
    next
      case (Inr fs)
      show ?thesis
      proof (cases "length fs > 1")
        case many: True
        with True Some Inr show ?thesis
          using queue_items_handleBulk [of ev fs "emit FindFiles st"]
          by (simp add: handleChatCommand_def queue_items_emit)
      next
        case one: False
        obtain res st' where h:
          "handleSingleEmailAnalysis ev doc (emit FindFiles st) = (res, st')"
          by (cases "handleSingleEmailAnalysis ev doc (emit FindFiles st)")
        with True Some Inr one show ?thesis
          using queue_items_handleSingle [of ev doc "emit FindFiles st"]
          by (cases res) (auto simp: handleChatCommand_def queue_items_emit)
      qed
    qed
  qed
qed

lemma item_at_getHumanReviewQueue: "item_at (snd (getHumanReviewQueue st)) = item_at st"
  by (rule ext) (simp add: getHumanReviewQueue_def item_at_def)

lemma queue_array_getHumanReviewQueue:
  "array_at (snd (getHumanReviewQueue st)) (humanReviewQueue (snd (getHumanReviewQueue st)))
     = array_at st (humanReviewQueue st)"
  using fresh_not_queue [of st] by (simp add: getHumanReviewQueue_def array_at_def)

text \<open>
  C9 (amended). The review queue is append-only under the operations of the handler.
  \<open>addToHumanReviewQueue\<close> appends exactly the item it is given at the end and leaves the
  entries before it as they were; the single, bulk and chat command runs leave the queue
  as it was or extend it at the end (a single run by at most one item), and the two submit
  functions leave it as it was. \<open>getHumanReviewQueue\<close> returns a new array, different
  from the array of the handler and from every array there was, that holds the same item
  objects in the same order: whatever is done to the returned array itself (\<open>push\<close>,
  \<open>pop\<close>, \<open>splice\<close>, an assignment to an index or to \<open>length\<close>) leaves the queue
  unchanged. The copy is shallow: a change made to an item object reached through the
  returned array is a change of the queued item.
\<close>

theorem review_queue_append_only:
  "queue_items (addToHumanReviewQueue r st) = queue_items st @ [item_at st r]
   \<and> queue_items (queue_for_review item st) = queue_items st @ [item]
   \<and> (\<exists>new. queue_items (snd (handleSingleEmailAnalysis ev c st)) = queue_items st @ new
         \<and> length new \<le> 1)
   \<and> (\<exists>new. queue_items (snd (handleBulkAnalysis ev files st)) = queue_items st @ new)
   \<and> (\<exists>new. queue_items (snd (handleChatCommand ev cmd st)) = queue_items st @ new)
   \<and> queue_items (snd (submitJiraTicket ev t st)) = queue_items st
   \<and> queue_items (snd (submitServiceNowTicket ev t st)) = queue_items st
   \<and> queue_items (snd (getHumanReviewQueue st)) = queue_items st
   \<and> array_at (snd (getHumanReviewQueue st)) (fst (getHumanReviewQueue st))
       = array_at st (humanReviewQueue st)
   \<and> fst (getHumanReviewQueue st) \<noteq> humanReviewQueue (snd (getHumanReviewQueue st))
   \<and> fst (getHumanReviewQueue st) \<notin> set (map fst (arrays st))
   \<and> queue_items (mutate_array (fst (getHumanReviewQueue st)) f (snd (getHumanReviewQueue st)))
       = queue_items st
   \<and> queue_items (mutate_item x g (snd (getHumanReviewQueue st)))
       = map (\<lambda>y. if y = x then g (item_at st x) else item_at st y)
           (array_at (snd (getHumanReviewQueue st)) (fst (getHumanReviewQueue st)))"
proof -
  have g: "fst (getHumanReviewQueue st) \<noteq> humanReviewQueue (snd (getHumanReviewQueue st))"
    using snapshot_new_array by blast
  have m: "queue_items (mutate_array (fst (getHumanReviewQueue st)) f (snd (getHumanReviewQueue st)))
        = queue_items st"
    using queue_items_mutate_other [OF g] queue_items_getHumanReviewQueue by simp
  have i: "queue_items (mutate_item x g (snd (getHumanReviewQueue st)))
       = map (\<lambda>y. if y = x then g (item_at st x) else item_at st y)
           (array_at (snd (getHumanReviewQueue st)) (fst (getHumanReviewQueue st)))"
    unfolding queue_items_mutate_item item_at_getHumanReviewQueue queue_array_getHumanReviewQueue
      snapshot_same_references ..
  show ?thesis
    using g m i queue_items_handleSingle [of ev c st] queue_items_handleBulk [of ev files st]
      queue_items_handleChatCommand [of ev cmd st] snapshot_new_array [of st]
    by (simp add: queue_items_add queue_items_queue_for_review snd_submitJiraTicket
        snd_submitServiceNowTicket queue_items_emit queue_items_getHumanReviewQueue
        snapshot_same_references)
qed

lemma one_queued_state:
  "one_queued =
     \<lparr>arrays = [(0, [1]), (0, [])], items = [(1, review_item)], humanReviewQueue = 0,
      trace = [ShowInformationMessage
                 (u ''Email queued for human review: Missing required fields'')]\<rparr>"
  by (simp add: one_queued_def queue_for_review_def new_item_def fresh_def used_def
      new_ChatCommandHandler_def addToHumanReviewQueue_def emit_def array_at_def item_at_def)
    (simp add: review_item_def)

lemma one_queued_snapshot:
  "getHumanReviewQueue one_queued =
     (2, \<lparr>arrays = [(2, [1]), (0, [1]), (0, [])], items = [(1, review_item)],
          humanReviewQueue = 0,
          trace = [ShowInformationMessage
                     (u ''Email queued for human review: Missing required fields'')]\<rparr>)"
  unfolding one_queued_state
  by (simp add: getHumanReviewQueue_def fresh_def used_def array_at_def)

theorem review_queue_append_only_witness:
  "queue_items one_queued = [review_item]
   \<and> fst (getHumanReviewQueue one_queued) = 2
   \<and> humanReviewQueue (snd (getHumanReviewQueue one_queued)) = 0
   \<and> array_at (snd (getHumanReviewQueue one_queued)) 2 = [1]
   \<and> queue_items (mutate_array 2 tl (snd (getHumanReviewQueue one_queued))) = [review_item]
   \<and> array_at (mutate_array 2 tl (snd (getHumanReviewQueue one_queued))) 2 = []
   \<and> queue_items (mutate_item 1 tamper (snd (getHumanReviewQueue one_queued)))
       = [tamper review_item]"
proof -
  have q: "queue_items one_queued = [review_item]"
    unfolding one_queued_state by (simp add: queue_items_def array_at_def item_at_def)
  have f: "fst (getHumanReviewQueue one_queued) = 2"
    by (simp add: one_queued_snapshot)
  have i: "item_at one_queued 1 = review_item"
    unfolding one_queued_state by (simp add: item_at_def)
  have a: "array_at (mutate_array 2 tl (snd (getHumanReviewQueue one_queued))) 2 = []"
    by (simp add: one_queued_snapshot mutate_array_def array_at_def)
  have s: "array_at (snd (getHumanReviewQueue one_queued)) 2 = [1]"
    by (simp add: one_queued_snapshot array_at_def)
  have h: "humanReviewQueue (snd (getHumanReviewQueue one_queued)) = 0"
    by (simp add: one_queued_snapshot)
  have m: "queue_items (mutate_array (fst (getHumanReviewQueue one_queued)) tl
             (snd (getHumanReviewQueue one_queued))) = queue_items one_queued"
    using review_queue_append_only [where st = one_queued and f = tl] by blast
  have g: "queue_items (mutate_item 1 tamper (snd (getHumanReviewQueue one_queued)))
       = map (\<lambda>y. if y = 1 then tamper (item_at one_queued 1) else item_at one_queued y)
           (array_at (snd (getHumanReviewQueue one_queued)) (fst (getHumanReviewQueue one_queued)))"
    using review_queue_append_only [where st = one_queued and x = 1 and g = tamper] by blast
  show ?thesis
    unfolding q f a s using m g i q f s h by simp
qed

text \<open>
  A caller that takes a snapshot of a queue holding one item and overwrites the
  \<open>reason\<close> of the item it finds in the returned array: the item in the queue of the
  handler has changed.
\<close>

theorem snapshot_items_shared:
  "queue_items one_queued = [review_item]
   \<and> queue_items tampered = [review_item\<lparr>reason := u ''done''\<rparr>]
   \<and> queue_items tampered \<noteq> queue_items one_queued"
proof -
  have q: "queue_items one_queued = [review_item]"
    unfolding one_queued_state by (simp add: queue_items_def array_at_def item_at_def)
  have t: "queue_items tampered = [review_item\<lparr>reason := u ''done''\<rparr>]"
    by (simp add: tampered_def one_queued_snapshot mutate_item_def queue_items_def array_at_def
        item_at_def tamper_def)
  show ?thesis
    unfolding q t by (simp add: review_item_def)
qed

section \<open>Bulk runs\<close>

lemma create_and_submit_jira_created:
  assumes "js_startsWith t (u ''jira-'')"
    and "fst (submitJiraTicket ev
                (createJiraTicket a (js_index (js_split t (u ''-'')) 1)) st) = Inr result"
  shows "\<exists>pm'. fst (create_and_submit ev a t pm st) = Inr (js_join pm' (u ''\<newline>''))
           \<and> emoji_check @ u '' Jira ticket created successfully!'' \<in> set pm'"
proof -
  obtain r s where j:
    "submitJiraTicket ev (createJiraTicket a (js_index (js_split t (u ''-'')) 1)) st = (r, s)"
    by (cases "submitJiraTicket ev (createJiraTicket a (js_index (js_split t (u ''-'')) 1)) st")
  with assms(2) have r: "r = Inr result" by simp
  show ?thesis
  proof (cases "ticket_details (u ''Jira'') t a result")
    case (Inl e)
    have "fst (create_and_submit ev a t pm st) =
        Inr (js_join
               (pm @ [emoji_clipboard @ u '' Creating Jira ''
                        @ show_index (js_split t (u ''-'')) 1 @ u '' ticket...'',
                      emoji_check @ u '' Jira ticket created successfully!'',
                      emoji_cross @ u '' Error creating ticket: '' @ error_message e])
               (u ''\<newline>''))"
      using assms(1) j Inl unfolding r
      by (simp add: create_and_submit_def jira_try_def Let_def appendProgress_def)
    then show ?thesis by (intro exI conjI) (assumption, simp)
  next
    case (Inr d)
    have "fst (create_and_submit ev a t pm st) =
        Inr (js_join
               (pm @ [emoji_clipboard @ u '' Creating Jira ''
                        @ show_index (js_split t (u ''-'')) 1 @ u '' ticket...'',
                      emoji_check @ u '' Jira ticket created successfully!'', d])
               (u ''\<newline>''))"
      using assms(1) j Inr unfolding r
      by (simp add: create_and_submit_def jira_try_def Let_def appendProgress_def)
    then show ?thesis by (intro exI conjI) (assumption, simp)
  qed
qed

lemma bulk_loop_read_fails:
  assumes "fs_readFile ev (trace st) f = Inl e"
  shows "bulk_loop ev n i (f # fs) pm results st =
     bulk_loop ev n (i + 1) fs
       (pm @ [u ''\<newline>'' @ emoji_mail @ u '' Processing email '' @ show_nat (i + 1) @ u '' of ''
                @ show_nat n @ u ''...'',
              emoji_folder @ u '' File: '' @ f,
              emoji_cross @ u '' Error processing email: '' @ error_message e
                @ u ''\<newline>'' @ rule_line])
       results (emit (ReadFile f) st)"
  using assms by (simp add: Let_def appendProgress_def)

lemma bulk_loop_single_throws:
  assumes "fs_readFile ev (trace st) f = Inr raw"
    and "handleSingleEmailAnalysis ev raw (emit (ReadFile f) st) = (Inl e, st')"
  shows "bulk_loop ev n i (f # fs) pm results st =
     bulk_loop ev n (i + 1) fs
       (pm @ [u ''\<newline>'' @ emoji_mail @ u '' Processing email '' @ show_nat (i + 1) @ u '' of ''
                @ show_nat n @ u ''...'',
              emoji_folder @ u '' File: '' @ f,
              emoji_cross @ u '' Error processing email: '' @ error_message e
                @ u ''\<newline>'' @ rule_line])
       results st'"
  using assms by (simp add: Let_def appendProgress_def)

lemma bulk_loop_single_returns:
  assumes "fs_readFile ev (trace st) f = Inr raw"
    and "handleSingleEmailAnalysis ev raw (emit (ReadFile f) st) = (Inr result, st')"
  shows "bulk_loop ev n i (f # fs) pm results st =
     bulk_loop ev n (i + 1) fs
       (pm @ [u ''\<newline>'' @ emoji_mail @ u '' Processing email '' @ show_nat (i + 1) @ u '' of ''
                @ show_nat n @ u ''...'',
              emoji_folder @ u '' File: '' @ f,
              emoji_check @ u '' Email processed successfully\<newline>'' @ rule_line])
       (results @ [(f, result)]) st'"
  using assms by (simp add: Let_def appendProgress_def)

lemma counts_cover_results: "tickets_created rs + failed_or_queued rs = length rs"
  by (simp add: tickets_created_def failed_or_queued_def sum_length_filter_compl)

lemma bulk_env_single:
  "\<exists>log st'. handleSingleEmailAnalysis bulk_env bug_email st = (Inr log, st')
      \<and> js_includes log (u ''created successfully'')"
proof -
  have c: "chat_open bulk_env (trace st) bug_email = Inr (Some bug_json)"
    by (simp add: bulk_env_def stub_env_def)
  have p: "JSON_parse bulk_env bug_json = Inr (Some bug_analysis)"
    by (simp add: bulk_env_def stub_env_def stub_parse_def)
  have k: "classifyTicketType (toLowerCase bulk_env) bug_analysis = Inr (u ''jira-bug'')"
    using bug_analysis_class by (simp add: bulk_env_def stub_env_def)
  have j: "js_startsWith (u ''jira-bug'') (u ''jira-'')"
    by (simp add: js_startsWith_def)
  have s: "\<And>t st. fst (submitJiraTicket bulk_env t st)
             = Inr (u ''Jira ticket created: '' @ u ''PROJ-123'')"
    by (rule submitJiraTicket_created) (simp add: bulk_env_def stub_env_def)
  have ok: "js_includes (emoji_check @ u '' Jira ticket created successfully!'')
              (u ''created successfully'')"
    using js_includes_mid [of "emoji_check @ u '' Jira ticket ''" "u ''created successfully''"
        "u ''!''"]
    by simp
  obtain pm' where
    "fst (handleSingleEmailAnalysis bulk_env bug_email st) = Inr (js_join pm' (u ''\<newline>''))"
    and "emoji_check @ u '' Jira ticket created successfully!'' \<in> set pm'"
    unfolding handleSingle_valid [OF c bug_json_analyzable p bug_analysis_extracted
        bug_analysis_valid k]
    using create_and_submit_jira_created [OF j s] by blast
  then have "\<exists>log. fst (handleSingleEmailAnalysis bulk_env bug_email st) = Inr log
      \<and> js_includes log (u ''created successfully'')"
    using js_includes_join [OF _ ok] by simp
  then show ?thesis
    by (metis prod.collapse)
qed

lemma handleBulk_of_loop:
  assumes "bulk_loop ev (length files) 0 files
             (appendProgress [] (emoji_cycle @ u '' Starting bulk analysis of ''
                @ show_nat (length files) @ u '' emails...\<newline>'')) [] st = (pm, results, st')"
  shows "handleBulkAnalysis ev files st =
           (js_join (appendProgress pm (bulk_summary (length files) results)) (u ''\<newline>''), st')"
  unfolding handleBulkAnalysis_def Let_def assms by simp

lemma show_nat_digits:
  "show_nat 0 = u ''0''" "show_nat 1 = u ''1''" "show_nat 2 = u ''2''"
  by (simp_all add: show_nat.simps)

text \<open>
  C5, at a run the code can meet: two files are supplied, the first cannot be read, the
  second yields a Jira ticket. Both files are processed, in order, and the failure of the
  first is caught and logged; but no entry is pushed onto \<open>results\<close> for it, so the
  summary reports 2 emails processed, 1 ticket created and 0 failed or queued: the two
  counts do not cover the file that failed.
\<close>

theorem bulk_failed_file_uncounted:
  "map fst (fst (snd (bulk_loop bulk_env 2 0 [u ''missing.eml'', u ''bug.eml''] [] []
      new_ChatCommandHandler))) = [u ''bug.eml'']
   \<and> js_includes
       (fst (handleBulkAnalysis bulk_env [u ''missing.eml'', u ''bug.eml'']
               new_ChatCommandHandler))
       (u ''Error processing email: ENOENT: no such file or directory, open missing.eml'')
   \<and> js_includes
       (fst (handleBulkAnalysis bulk_env [u ''missing.eml'', u ''bug.eml'']
               new_ChatCommandHandler))
       (u ''Total emails processed: 2\<newline>'' @ emoji_ticket @ u '' Tickets created: 1\<newline>''
          @ emoji_warning @ u '' Failed/Queued for review: 0'')"
proof -
  let ?st1 = "emit (ReadFile (u ''missing.eml'')) new_ChatCommandHandler"
  let ?enoent = "u ''ENOENT: no such file or directory, open '' @ u ''missing.eml''"
  have r1: "\<And>st. fs_readFile bulk_env (trace st) (u ''missing.eml'') = Inl (Error ?enoent)"
    by (simp add: bulk_env_def stub_env_def)
  have r2: "\<And>st. fs_readFile bulk_env (trace st) (u ''bug.eml'') = Inr bug_email"
    by (simp add: bulk_env_def stub_env_def)
  obtain log st' where
    h: "handleSingleEmailAnalysis bulk_env bug_email (emit (ReadFile (u ''bug.eml'')) ?st1)
          = (Inr log, st')"
    and inc: "js_includes log (u ''created successfully'')"
    using bulk_env_single by blast
  let ?line = "emoji_cross @ u '' Error processing email: '' @ error_message (Error ?enoent)
            @ u ''\<newline>'' @ rule_line"
  have loop: "\<And>n pm. \<exists>pm'. bulk_loop bulk_env n 0 [u ''missing.eml'', u ''bug.eml''] pm []
      new_ChatCommandHandler = (pm @ pm', [(u ''bug.eml'', log)], st')
      \<and> ?line \<in> set pm'"
    unfolding bulk_loop_read_fails [OF r1] bulk_loop_single_returns [OF r2 h]
    by simp
  have first: "map fst (fst (snd (bulk_loop bulk_env 2 0 [u ''missing.eml'', u ''bug.eml''] [] []
      new_ChatCommandHandler))) = [u ''bug.eml'']"
    using loop [of 2 "[]"] by auto
  have cnt: "tickets_created [(u ''bug.eml'', log)] = 1"
    "failed_or_queued [(u ''bug.eml'', log)] = 0"
    using inc by (simp_all add: tickets_created_def failed_or_queued_def)
  let ?files = "[u ''missing.eml'', u ''bug.eml'']"
  let ?pm0 = "appendProgress [] (emoji_cycle @ u '' Starting bulk analysis of ''
             @ show_nat (length ?files) @ u '' emails...\<newline>'')"
  obtain pm' where
    b: "bulk_loop bulk_env (length ?files) 0 ?files ?pm0 [] new_ChatCommandHandler
        = (?pm0 @ pm', [(u ''bug.eml'', log)], st')"
    and e: "?line \<in> set pm'"
    using loop [of "length ?files" ?pm0] by blast
  let ?pm = "appendProgress (?pm0 @ pm') (bulk_summary (length ?files) [(u ''bug.eml'', log)])"
  have res: "fst (handleBulkAnalysis bulk_env ?files new_ChatCommandHandler)
      = js_join ?pm (u ''\<newline>'')"
    using handleBulk_of_loop [OF b] by (simp only: fst_conv)
  have e': "?line \<in> set ?pm"
    using e by (simp add: appendProgress_def)
  have s': "bulk_summary (length ?files) [(u ''bug.eml'', log)] \<in> set ?pm"
    by (simp add: appendProgress_def)
  have i1: "js_includes ?line
       (u ''Error processing email: ENOENT: no such file or directory, open missing.eml'')"
    using js_includes_mid [of "emoji_cross @ u '' ''"
        "u ''Error processing email: ENOENT: no such file or directory, open missing.eml''"
        "u ''\<newline>'' @ rule_line"]
    by simp
  have len: "length ?files = 2" by simp
  have sum: "bulk_summary (length ?files) [(u ''bug.eml'', log)]
      = (u ''\<newline>'' @ emoji_chart @ u '' Summary:\<newline>'' @ emoji_check @ u '' '')
        @ (u ''Total emails processed: 2\<newline>'' @ emoji_ticket @ u '' Tickets created: 1\<newline>''
          @ emoji_warning @ u '' Failed/Queued for review: 0'') @ []"
    unfolding len bulk_summary_def cnt show_nat_digits by simp
  have i2: "js_includes (bulk_summary (length ?files) [(u ''bug.eml'', log)])
       (u ''Total emails processed: 2\<newline>'' @ emoji_ticket @ u '' Tickets created: 1\<newline>''
          @ emoji_warning @ u '' Failed/Queued for review: 0'')"
    unfolding sum by (rule js_includes_mid)
  show ?thesis
    unfolding res
    using first js_includes_join [OF e' i1] js_includes_join [OF s' i2]
    by blast
qed

lemma files_read_append: "files_read (xs @ ys) = files_read xs @ files_read ys"
  by (induction xs rule: files_read.induct) simp_all

lemma files_read_emit:
  "files_read (trace (emit e st)) = files_read (trace st) @ files_read [e]"
  by (simp add: emit_def files_read_append)

lemma files_read_queue_for_review:
  "files_read (trace (queue_for_review item st)) = files_read (trace st)"
  by (simp add: trace_queue_for_review files_read_append)

lemma files_read_create_and_submit:
  "files_read (trace (snd (create_and_submit ev a t pm st))) = files_read (trace st)"
  by (simp add: snd_create_and_submit files_read_emit)

lemma files_read_handleSingle:
  "files_read (trace (snd (handleSingleEmailAnalysis ev c st))) = files_read (trace st)"
proof (cases ev st c rule: handleSingle_cases)
  case (chat_throws e)
  then show ?thesis by (simp add: handleSingle_chat_throws files_read_emit)
next
  case (unanalyzable r)
  then show ?thesis
    by (simp add: handleSingle_unanalyzable queue_unanalyzable_result
        files_read_queue_for_review files_read_emit)
next
  case (parse_throws t e)
  then show ?thesis by (simp add: handleSingle_parse_throws files_read_emit)
next
  case (parse_falsy t)
  then show ?thesis
    by (simp add: handleSingle_parse_falsy queue_unanalyzable_result
        files_read_queue_for_review files_read_emit)
next
  case (interpolation_throws t a e)
  then show ?thesis by (simp add: handleSingle_interpolation_throws files_read_emit)
next
  case (missing t a x)
  then show ?thesis
    by (simp add: handleSingle_missing files_read_queue_for_review files_read_emit)
next
  case (classify_throws t a x e)
  then show ?thesis by (simp add: handleSingle_classify_throws files_read_emit)
next
  case (valid t a x ticketType)
  then show ?thesis
    by (simp add: handleSingle_valid files_read_create_and_submit files_read_emit)
qed

text \<open>The files are read one at a time, in the order supplied, whatever fails on the way.\<close>

lemma bulk_loop_reads_in_order:
  "files_read (trace (snd (snd (bulk_loop ev n i files pm results st))))
     = files_read (trace st) @ files"
proof (induction files arbitrary: i pm results st)
  case Nil
  show ?case by simp
next
  case (Cons f files)
  show ?case
  proof (cases "fs_readFile ev (trace st) f")
    case (Inl e)
    show ?thesis
      unfolding bulk_loop_read_fails [OF Inl] Cons.IH by (simp add: files_read_emit)
  next
    case r: (Inr raw)
    obtain res st' where h: "handleSingleEmailAnalysis ev raw (emit (ReadFile f) st) = (res, st')"
      by (cases "handleSingleEmailAnalysis ev raw (emit (ReadFile f) st)")
    have t: "files_read (trace st') = files_read (trace st) @ [f]"
      using files_read_handleSingle [of ev raw "emit (ReadFile f) st"] h
      by (simp add: files_read_emit)
    show ?thesis
    proof (cases res)
      case (Inl e)
      show ?thesis
        unfolding bulk_loop_single_throws [OF r h [unfolded Inl]] Cons.IH by (simp add: t)
    next
      case (Inr log)
      show ?thesis
        unfolding bulk_loop_single_returns [OF r h [unfolded Inr]] Cons.IH by (simp add: t)
    qed
  qed
qed

lemma handleBulk_reads_in_order:
  "files_read (trace (snd (handleBulkAnalysis ev files st))) = files_read (trace st) @ files"
proof -
  obtain pm results st' where b:
    "bulk_loop ev (length files) 0 files
       (appendProgress [] (emoji_cycle @ u '' Starting bulk analysis of ''
          @ show_nat (length files) @ u '' emails...\<newline>'')) [] st = (pm, results, st')"
    by (metis prod_cases3)
  have "files_read (trace st') = files_read (trace st) @ files"
    using bulk_loop_reads_in_order [of ev "length files" 0 files
      "appendProgress [] (emoji_cycle @ u '' Starting bulk analysis of ''
          @ show_nat (length files) @ u '' emails...\<newline>'')" "[]" st]
    unfolding b by simp
  then show ?thesis
    unfolding handleBulk_of_loop [OF b] by simp
qed

end
